theory Spec2Isabelle
  imports Complex_Main "HOL-Library.Monad_Syntax"
begin

section \<open>Tensors\<close>

text \<open>
  A tensor is its element type tag, its shape and its elements in row-major order.
  Hidden states hold idealised floating-point numbers (reals, no rounding); attention
  masks hold reals or minus infinity; target sequences hold integers.
\<close>

datatype float_dtype = Float16 | BFloat16 | Float32 | Float64

datatype dtype = Floating float_dtype | Int64 | Bool

datatype 'a tensor = Tensor (dtype: dtype) (shape: "nat list") (elems: "'a list")

datatype fp = Fin real | NegInf

text \<open>\<^verbatim>\<open>seq.eq(v)\<close>: the element-wise comparison with a scalar.\<close>

definition tensor_eq :: "int tensor \<Rightarrow> int \<Rightarrow> bool tensor" where
  "tensor_eq t v = Tensor Bool (shape t) (map (\<lambda>e. e = v) (elems t))"

text \<open>\<^verbatim>\<open>x * c\<close> for a Python float \<open>c\<close>.\<close>

definition tensor_mul :: "real tensor \<Rightarrow> real \<Rightarrow> real tensor" where
  "tensor_mul t c = Tensor (dtype t) (shape t) (map (\<lambda>e. e * c) (elems t))"

text \<open>
  Modelled from the spec: \<^verbatim>\<open>to_float_mask\<close> of \<^verbatim>\<open>fairseq2.nn.utils\<close> is not among the
  sources. The padding mask is "a boolean-equivalent array marking symbol positions", and
  a float key padding mask is one whose "values will be added to the attention weights"
  (docstring of \<^verbatim>\<open>TransformerDecoder.forward\<close>): a marked position carries minus
  infinity, every other position zero, in the requested floating-point type.
\<close>

definition to_float_mask :: "bool tensor \<Rightarrow> float_dtype \<Rightarrow> fp tensor" where
  "to_float_mask m dt =
     Tensor (Floating dt) (shape m) (map (\<lambda>b. if b then NegInf else Fin 0) (elems m))"

text \<open>The positions a float mask marks, and the rows of a tensor along its last dimension.\<close>

definition marked :: "fp tensor \<Rightarrow> nat set" where
  "marked m = {i. i < length (elems m) \<and> elems m ! i = NegInf}"

definition rows :: "nat \<Rightarrow> 'a tensor \<Rightarrow> 'a list list" where
  "rows n t = map (\<lambda>i. take n (drop (i * n) (elems t))) [0..<prod_list (butlast (shape t))]"


section \<open>Collaborators\<close>

text \<open>
  The modules the decoder is built from are objects with a \<^verbatim>\<open>forward\<close> method; each is a
  record of its attributes and of that method. A call that raises returns \<open>None\<close>. The state
  bag of an incremental evaluation is opaque (\<open>'s\<close>): a layer given the bag returns the
  bag's contents after the call.
\<close>

record embedding =
  embedding_dim :: nat
  padding_idx :: "int option"
  weight_dtype :: float_dtype
  embed_forward :: "int tensor \<Rightarrow> real tensor option"

record 's positional_embedding =
  pos_embedding_dim :: nat
  pos_forward :: "real tensor \<Rightarrow> 's option \<Rightarrow> real tensor option"

datatype key_padding_mask = BoolMask "bool tensor" | FloatMask "fp tensor"

record 's decoder_layer =
  layer_model_dim :: nat
  layer_forward :: "real tensor \<Rightarrow> fp tensor option \<Rightarrow> fp tensor option \<Rightarrow>
     real tensor option \<Rightarrow> key_padding_mask option \<Rightarrow> 's option \<Rightarrow> (real tensor \<times> 's option) option"

type_synonym attention_mask_generator = "real tensor \<Rightarrow> fp tensor option"

type_synonym device = string

record fct_kwargs =
  kw_device :: "device option"
  kw_dtype :: "float_dtype option"

text \<open>
  \<^verbatim>\<open>torch.nn.LayerNorm\<close> over the last dimension, with its element-wise affine
  parameters (ones and zeros when constructed).
\<close>

record LayerNorm =
  normalized_shape :: nat
  eps :: real
  ln_weight :: "real list"
  ln_bias :: "real list"
  ln_kwargs :: fct_kwargs

definition new_LayerNorm :: "nat \<Rightarrow> real \<Rightarrow> fct_kwargs \<Rightarrow> LayerNorm" where
  "new_LayerNorm n e kw =
     \<lparr>normalized_shape = n, eps = e, ln_weight = replicate n 1, ln_bias = replicate n 0,
      ln_kwargs = kw\<rparr>"

definition layer_norm_row :: "LayerNorm \<Rightarrow> real list \<Rightarrow> real list" where
  "layer_norm_row lnm v =
     (let n = real (length v);
          mean = sum_list v / n;
          var = sum_list (map (\<lambda>a. (a - mean)\<^sup>2) v) / n
      in map (\<lambda>(a, g, b). (a - mean) / sqrt (var + eps lnm) * g + b)
           (zip v (zip (ln_weight lnm) (ln_bias lnm))))"

definition LayerNorm_forward :: "LayerNorm \<Rightarrow> real tensor \<Rightarrow> real tensor option" where
  "LayerNorm_forward lnm x =
     (if shape x \<noteq> [] \<and> last (shape x) = normalized_shape lnm
      then Some (Tensor (dtype x) (shape x)
             (concat (map (layer_norm_row lnm) (rows (normalized_shape lnm) x))))
      else None)"

text \<open>\<^verbatim>\<open>F.dropout(x, p, training)\<close>: \<open>u i\<close> is the uniform sample drawn for element \<open>i\<close>.\<close>

definition dropout :: "real tensor \<Rightarrow> real \<Rightarrow> bool \<Rightarrow> (nat \<Rightarrow> real) \<Rightarrow> real tensor" where
  "dropout x p training u =
     (if training
      then Tensor (dtype x) (shape x)
             (map (\<lambda>(i, e). if u i < p then 0 else e / (1 - p)) (enumerate 0 (elems x)))
      else x)"

subsection \<open>Projections\<close>

text \<open>
  Modelled from the spec: \<^verbatim>\<open>ResettableProjection\<close> of \<^verbatim>\<open>fairseq2.nn.projection\<close> is not
  among the sources. Section 4.4: "A linear transform with bias [...] Purely functional
  application: y = xW + b. No other behavior."; it maps the last dimension from
  \<open>inp_dim\<close> to \<open>out_dim\<close> and fails on any other width.
\<close>

record projection =
  inp_dim :: nat
  out_dim :: nat
  weight :: "real list list"
  bias :: "real list option"
  proj_kwargs :: fct_kwargs

definition linear_row :: "projection \<Rightarrow> real list \<Rightarrow> real list" where
  "linear_row p v =
     (let y = map (\<lambda>r. sum_list (map (\<lambda>(a, b). a * b) (zip r v))) (weight p)
      in case bias p of None \<Rightarrow> y | Some b \<Rightarrow> map (\<lambda>(a, c). a + c) (zip y b))"

definition proj_forward :: "projection \<Rightarrow> real tensor \<Rightarrow> real tensor option" where
  "proj_forward p x =
     (if shape x \<noteq> [] \<and> last (shape x) = inp_dim p
      then Some (Tensor (dtype x) (butlast (shape x) @ [out_dim p])
             (concat (map (linear_row p) (rows (inp_dim p) x))))
      else None)"

text \<open>
  \<^verbatim>\<open>InternalDimProjection\<close> (lines 90 to 105): a projection with a bias whose weight is
  drawn by \<^verbatim>\<open>xavier_uniform_\<close> (\<open>xavier out inp\<close> is the matrix drawn) and whose bias is
  zero.
\<close>

definition InternalDimProjection ::
  "(nat \<Rightarrow> nat \<Rightarrow> real list list) \<Rightarrow> nat \<Rightarrow> nat \<Rightarrow> fct_kwargs \<Rightarrow> projection" where
  "InternalDimProjection xavier inp out kw =
     \<lparr>inp_dim = inp, out_dim = out, weight = xavier out inp,
      bias = Some (replicate out 0), proj_kwargs = kw\<rparr>"

definition num_parameters :: "projection option \<Rightarrow> nat" where
  "num_parameters p =
     (case p of None \<Rightarrow> 0
      | Some q \<Rightarrow> out_dim q * inp_dim q + (case bias q of None \<Rightarrow> 0 | Some b \<Rightarrow> out_dim q))"

subsection \<open>The layer list\<close>

text \<open>
  Modelled from the spec: \<^verbatim>\<open>ModuleList\<close> of \<^verbatim>\<open>fairseq2.nn.module_list\<close> is not among the
  sources. It holds the layers in order with the layer-drop probability. Section 4.2,
  step 8: "during training, each layer may be stochastically skipped with probability
  layer_drop_p (applies uniformly and independently per layer per forward call) [...]
  Disabled at inference (probability forced to 0 regardless of configured value)"; section
  9: "one independent Bernoulli draw per layer, suppressed entirely outside training mode".
  Iterating yields the layers that are kept, each with its index in the stack; \<open>u i\<close> is the
  uniform sample in [0, 1) drawn for layer \<open>i\<close>, which is skipped when \<open>u i\<close> is below the
  probability. The list shares the training flag of the decoder that owns it.
\<close>

record 's module_list =
  modules :: "'s decoder_layer list"
  drop_p :: real

definition ModuleList :: "'s decoder_layer list \<Rightarrow> real \<Rightarrow> 's module_list" where
  "ModuleList ms p = \<lparr>modules = ms, drop_p = p\<rparr>"

definition module_list_iter ::
  "'s module_list \<Rightarrow> bool \<Rightarrow> (nat \<Rightarrow> real) \<Rightarrow> (nat \<times> 's decoder_layer) list" where
  "module_list_iter ml training u =
     (if training then filter (\<lambda>(i, m). \<not> u i < drop_p ml) (enumerate 0 (modules ml))
      else enumerate 0 (modules ml))"

text \<open>
  Modelled from the spec: \<^verbatim>\<open>CausalAttentionMaskGenerator\<close> of
  \<^verbatim>\<open>fairseq2.nn.transformer.attention_mask\<close> is not among the sources. Section 4.3: "a
  T x T [...] array where entry (i,j) permits attention if j <= i", for the sequence
  length T of the input (its last dimension but one).
\<close>

definition CausalAttentionMaskGenerator :: attention_mask_generator where
  "CausalAttentionMaskGenerator x =
     (if length (shape x) < 2 then None
      else let T = shape x ! (length (shape x) - 2)
           in Some (Tensor (dtype x) [T, T]
                (concat (map (\<lambda>i. map (\<lambda>j. if i < j then NegInf else Fin 0) [0..<T]) [0..<T]))))"


section \<open>The decoder\<close>

datatype TransformerNormOrder = POST | PRE | PRE_FINAL

record 's decoder =
  model_dim :: nat
  embed :: embedding
  embed_scale :: real
  pos_embed :: "'s positional_embedding option"
  embed_norm :: "LayerNorm option"
  embed_dropout_p :: real
  inp_dim_proj :: "projection option"
  self_attn_mask_gen :: attention_mask_generator
  layers :: "'s module_list"
  layer_norm :: "LayerNorm option"
  out_dim_proj :: "projection option"
  training :: bool

subsection \<open>Construction\<close>

text \<open>
  The \<^verbatim>\<open>layers\<close> argument is any Python iterable: a sequence (a list, a tuple) yields its
  items every time it is iterated; an iterator (a generator) yields each item once and
  is exhausted afterwards.
\<close>

datatype 'a iterable = Sequence "'a list" | Iterator "'a list"

fun iterate :: "'a iterable \<Rightarrow> 'a list \<times> 'a iterable" where
  "iterate (Sequence xs) = (xs, Sequence xs)"
| "iterate (Iterator xs) = (xs, Iterator [])"

text \<open>The three \<^verbatim>\<open>ValueError\<close>s of the constructor, with the values their messages print.\<close>

datatype error =
    No_layers
  | Layer_model_dim_mismatch (idx: nat) (layer_dim: nat) (expected_dim: nat)
  | Pos_embed_dim_mismatch nat nat

text \<open>The loop \<^verbatim>\<open>for idx, layer in enumerate(layers)\<close> of lines 174 to 178.\<close>

fun check_layers :: "nat \<Rightarrow> nat \<Rightarrow> 's decoder_layer list \<Rightarrow> error option" where
  "check_layers md i [] = None"
| "check_layers md i (layer # rest) =
     (if layer_model_dim layer \<noteq> md
      then Some (Layer_model_dim_mismatch i (layer_model_dim layer) md)
      else check_layers md (Suc i) rest)"

text \<open>
  \<^verbatim>\<open>StandardTransformerDecoder.__init__\<close>. The layer list is built by iterating
  \<^verbatim>\<open>layers\<close> (line 168); the width check iterates \<^verbatim>\<open>layers\<close> itself a second time
  (line 174). A module is in training mode when constructed.
\<close>

definition init ::
  "(nat \<Rightarrow> nat \<Rightarrow> real list list) \<Rightarrow> embedding \<Rightarrow> 's positional_embedding option \<Rightarrow>
   's decoder_layer iterable \<Rightarrow> bool \<Rightarrow> bool \<Rightarrow> real \<Rightarrow> attention_mask_generator option \<Rightarrow>
   real \<Rightarrow> TransformerNormOrder \<Rightarrow> real \<Rightarrow> fct_kwargs \<Rightarrow> error + 's decoder" where
  "init xavier emb pos ls no_scale_embed norm_embed dropout_p mask_gen layer_drop_p norm_order
        norm_eps kw =
     (let (items, ls1) = iterate ls;
          layer_list = ModuleList items layer_drop_p
      in if modules layer_list = [] then Inl No_layers
         else
           let md = layer_model_dim (hd (modules layer_list));
               (items2, ls2) = iterate ls1
           in case check_layers md 0 items2 of
                Some e \<Rightarrow> Inl e
              | None \<Rightarrow>
                  let ed = embedding_dim emb
                  in if (case pos of None \<Rightarrow> False | Some p \<Rightarrow> pos_embedding_dim p \<noteq> ed)
                     then Inl (Pos_embed_dim_mismatch
                                (case pos of None \<Rightarrow> 0 | Some p \<Rightarrow> pos_embedding_dim p) ed)
                     else Inr
                       \<lparr>model_dim = md,
                        embed = emb,
                        embed_scale = (if no_scale_embed then 1 else sqrt (real ed)),
                        pos_embed = pos,
                        embed_norm = (if norm_embed then Some (new_LayerNorm ed norm_eps kw) else None),
                        embed_dropout_p = dropout_p,
                        inp_dim_proj =
                          (if ed \<noteq> md then Some (InternalDimProjection xavier ed md kw) else None),
                        self_attn_mask_gen =
                          (case mask_gen of None \<Rightarrow> CausalAttentionMaskGenerator | Some g \<Rightarrow> g),
                        layers = layer_list,
                        layer_norm =
                          (if norm_order \<noteq> POST then Some (new_LayerNorm md norm_eps kw) else None),
                        out_dim_proj =
                          (if ed \<noteq> md then Some (InternalDimProjection xavier md ed kw) else None),
                        training = True\<rparr>)"

subsection \<open>The forward pass\<close>

text \<open>
  A forward call runs in a world that holds the decoder object itself (its attributes can
  be assigned by any method) and the calls made to the decoder's collaborators so far, in
  order, each with the arguments it was given. The random outcomes of one call are an
  argument of it: the uniform samples of the embedding dropout and of the layer drop.
\<close>

datatype 's call =
    Call_embed "int tensor"
  | Call_pos_embed "real tensor" "'s option"
  | Call_embed_norm "real tensor"
  | Call_dropout "real tensor" real bool
  | Call_inp_dim_proj "real tensor"
  | Call_self_attn_mask_gen "real tensor"
  | Call_layer nat "real tensor" "fp tensor option" "fp tensor option" "real tensor option"
      "key_padding_mask option" "'s option"
  | Call_layer_norm "real tensor"
  | Call_out_dim_proj "real tensor"

record 's world =
  self :: "'s decoder"
  calls :: "'s call list"

record randomness =
  dropout_draws :: "nat \<Rightarrow> real"
  layer_drop_draws :: "nat \<Rightarrow> real"

definition invoke :: "'s call \<Rightarrow> 'a option \<Rightarrow> 's world \<Rightarrow> ('a \<times> 's world) option" where
  "invoke c r w = map_option (\<lambda>y. (y, w\<lparr>calls := calls w @ [c]\<rparr>)) r"

text \<open>\<^verbatim>\<open>_get_self_attn_padding_mask\<close> (lines 259 to 270).\<close>

definition get_self_attn_padding_mask :: "'s decoder \<Rightarrow> int tensor \<Rightarrow> fp tensor option" where
  "get_self_attn_padding_mask d seq =
     (case padding_idx (embed d) of
        Some p \<Rightarrow> Some (to_float_mask (tensor_eq seq p) (weight_dtype (embed d)))
      | None \<Rightarrow> None)"

text \<open>\<^verbatim>\<open>_forward_embed\<close> (lines 272 to 289).\<close>

definition forward_embed ::
  "int tensor \<Rightarrow> 's option \<Rightarrow> (nat \<Rightarrow> real) \<Rightarrow> 's world \<Rightarrow> (real tensor \<times> 's world) option" where
  "forward_embed seq state_bag u w = do {
     (e, w) \<leftarrow> invoke (Call_embed seq) (embed_forward (embed (self w)) seq) w;
     let e = (if embed_scale (self w) \<noteq> 1 then tensor_mul e (embed_scale (self w)) else e);
     (e, w) \<leftarrow> (case pos_embed (self w) of
                  Some p \<Rightarrow> invoke (Call_pos_embed e state_bag) (pos_forward p e state_bag) w
                | None \<Rightarrow> Some (e, w));
     (e, w) \<leftarrow> (case embed_norm (self w) of
                  Some n \<Rightarrow> invoke (Call_embed_norm e) (LayerNorm_forward n e) w
                | None \<Rightarrow> Some (e, w));
     (e, w) \<leftarrow> (if embed_dropout_p (self w) > 0
                then invoke (Call_dropout e (embed_dropout_p (self w)) (training (self w)))
                       (Some (dropout e (embed_dropout_p (self w)) (training (self w)) u)) w
                else Some (e, w));
     Some (e, w)
   }"

text \<open>The loop \<^verbatim>\<open>for layer in self.layers\<close> of lines 304 to 312.\<close>

fun layers_loop ::
  "(nat \<times> 's decoder_layer) list \<Rightarrow> real tensor \<Rightarrow> fp tensor option \<Rightarrow> fp tensor option \<Rightarrow>
   real tensor option \<Rightarrow> key_padding_mask option \<Rightarrow> 's option \<Rightarrow> 's world \<Rightarrow>
   (real tensor \<times> 's option \<times> 's world) option" where
  "layers_loop [] x self_attn_mask self_attn_padding_mask enc_out enc_padding_mask state_bag w =
     Some (x, state_bag, w)"
| "layers_loop ((i, layer) # rest) x self_attn_mask self_attn_padding_mask enc_out
      enc_padding_mask state_bag w = do {
     ((x', state_bag'), w') \<leftarrow>
        invoke (Call_layer i x self_attn_mask self_attn_padding_mask enc_out enc_padding_mask
                  state_bag)
          (layer_forward layer x self_attn_mask self_attn_padding_mask enc_out enc_padding_mask
             state_bag) w;
     layers_loop rest x' self_attn_mask self_attn_padding_mask enc_out enc_padding_mask
       state_bag' w'
   }"

text \<open>\<^verbatim>\<open>_forward_decoder_layers\<close> (lines 291 to 317).\<close>

definition forward_decoder_layers ::
  "real tensor \<Rightarrow> fp tensor option \<Rightarrow> real tensor option \<Rightarrow> key_padding_mask option \<Rightarrow>
   's option \<Rightarrow> (nat \<Rightarrow> real) \<Rightarrow> 's world \<Rightarrow> (real tensor \<times> 's option \<times> 's world) option" where
  "forward_decoder_layers x self_attn_padding_mask enc_out enc_padding_mask state_bag u w = do {
     (self_attn_mask, w) \<leftarrow>
        (if training (self w) \<or> state_bag = None
         then map_option (\<lambda>(m, w'). (Some m, w'))
                (invoke (Call_self_attn_mask_gen x) (self_attn_mask_gen (self w) x) w)
         else Some (None, w));
     (x, state_bag, w) \<leftarrow>
        layers_loop (module_list_iter (layers (self w)) (training (self w)) u) x self_attn_mask
          self_attn_padding_mask enc_out enc_padding_mask state_bag w;
     (x, w) \<leftarrow> (case layer_norm (self w) of
                  Some n \<Rightarrow> invoke (Call_layer_norm x) (LayerNorm_forward n x) w
                | None \<Rightarrow> Some (x, w));
     Some (x, state_bag, w)
   }"

text \<open>\<^verbatim>\<open>StandardTransformerDecoder.forward\<close> (lines 231 to 257).\<close>

definition forward ::
  "int tensor \<Rightarrow> real tensor option \<Rightarrow> key_padding_mask option \<Rightarrow> 's option \<Rightarrow> randomness \<Rightarrow>
   's world \<Rightarrow> (real tensor \<times> 's option \<times> 's world) option" where
  "forward seq enc_out enc_padding_mask state_bag rnd w = do {
     let self_attn_padding_mask = get_self_attn_padding_mask (self w) seq;
     (x, w) \<leftarrow> forward_embed seq state_bag (dropout_draws rnd) w;
     (x, w) \<leftarrow> (case inp_dim_proj (self w) of
                  Some p \<Rightarrow> invoke (Call_inp_dim_proj x) (proj_forward p x) w
                | None \<Rightarrow> Some (x, w));
     (x, state_bag, w) \<leftarrow>
        forward_decoder_layers x self_attn_padding_mask enc_out enc_padding_mask state_bag
          (layer_drop_draws rnd) w;
     (x, w) \<leftarrow> (case out_dim_proj (self w) of
                  Some p \<Rightarrow> invoke (Call_out_dim_proj x) (proj_forward p x) w
                | None \<Rightarrow> Some (x, w));
     Some (x, state_bag, w)
   }"

section \<open>Observing the calls of a forward pass\<close>

text \<open>
  The calls made between two worlds, and what they show: the layers called, in order, each
  with its index in the stack, the self-attention mask and the padding mask it received;
  the inputs the mask generator was invoked on; the arguments of the positional embedding;
  the calls of the two dimension projections.
\<close>

definition made :: "'s world \<Rightarrow> 's world \<Rightarrow> 's call list" where
  "made w w' = drop (length (calls w)) (calls w')"

fun layer_calls :: "'s call list \<Rightarrow> (nat \<times> fp tensor option \<times> fp tensor option) list" where
  "layer_calls [] = []"
| "layer_calls (Call_layer i x m pm eo em s # cs) = (i, m, pm) # layer_calls cs"
| "layer_calls (c # cs) = layer_calls cs"

fun mask_gen_calls :: "'s call list \<Rightarrow> real tensor list" where
  "mask_gen_calls [] = []"
| "mask_gen_calls (Call_self_attn_mask_gen x # cs) = x # mask_gen_calls cs"
| "mask_gen_calls (c # cs) = mask_gen_calls cs"

fun pos_embed_calls :: "'s call list \<Rightarrow> (real tensor \<times> 's option) list" where
  "pos_embed_calls [] = []"
| "pos_embed_calls (Call_pos_embed x s # cs) = (x, s) # pos_embed_calls cs"
| "pos_embed_calls (c # cs) = pos_embed_calls cs"

fun proj_calls :: "'s call list \<Rightarrow> real tensor list" where
  "proj_calls [] = []"
| "proj_calls (Call_inp_dim_proj x # cs) = x # proj_calls cs"
| "proj_calls (Call_out_dim_proj x # cs) = x # proj_calls cs"
| "proj_calls (c # cs) = proj_calls cs"

text \<open>
  The tensors handed on inside the embedding stage (to the positional embedding, the
  normaliser and the dropout, in order), and the tensors handed to everything that comes
  after the embedding stage (a dimension projection, the mask generator, a layer, the final
  normaliser), in order.
\<close>

fun embed_stage_inputs :: "'s call list \<Rightarrow> real tensor list" where
  "embed_stage_inputs [] = []"
| "embed_stage_inputs (Call_pos_embed x s # cs) = x # embed_stage_inputs cs"
| "embed_stage_inputs (Call_embed_norm x # cs) = x # embed_stage_inputs cs"
| "embed_stage_inputs (Call_dropout x p t # cs) = x # embed_stage_inputs cs"
| "embed_stage_inputs (c # cs) = embed_stage_inputs cs"

fun stack_inputs :: "'s call list \<Rightarrow> real tensor list" where
  "stack_inputs [] = []"
| "stack_inputs (Call_inp_dim_proj x # cs) = x # stack_inputs cs"
| "stack_inputs (Call_self_attn_mask_gen x # cs) = x # stack_inputs cs"
| "stack_inputs (Call_layer i x m pm eo em s # cs) = x # stack_inputs cs"
| "stack_inputs (Call_layer_norm x # cs) = x # stack_inputs cs"
| "stack_inputs (Call_out_dim_proj x # cs) = x # stack_inputs cs"
| "stack_inputs (c # cs) = stack_inputs cs"

text \<open>The mask a call's layers are to receive (lines 299 to 302).\<close>

definition self_attn_mask_of :: "'s decoder \<Rightarrow> 's option \<Rightarrow> real tensor \<Rightarrow> fp tensor option" where
  "self_attn_mask_of d sb x = (if training d \<or> sb = None then self_attn_mask_gen d x else None)"


text \<open>
  What the collaborators promise about shapes (section 6 of the spec): the embedding appends
  its width to the shape of the sequence; the positional embedding and every layer return a
  tensor of the shape they were given.
\<close>

definition embeds_to_width :: "embedding \<Rightarrow> bool" where
  "embeds_to_width emb \<longleftrightarrow>
     (\<forall>s e. embed_forward emb s = Some e \<longrightarrow> shape e = shape s @ [embedding_dim emb])"

definition pos_preserves_shape :: "'s positional_embedding \<Rightarrow> bool" where
  "pos_preserves_shape p \<longleftrightarrow> (\<forall>x s e. pos_forward p x s = Some e \<longrightarrow> shape e = shape x)"

definition preserves_shape :: "'s decoder_layer \<Rightarrow> bool" where
  "preserves_shape l \<longleftrightarrow>
     (\<forall>x m pm eo em s y s'. layer_forward l x m pm eo em s = Some (y, s') \<longrightarrow> shape y = shape x)"

text \<open>
  Two runs agree when both fail or both return the same values in worlds that hold the
  decoder \<open>d\<close>.
\<close>

definition same_result :: "'s decoder \<Rightarrow> ('a \<times> 's world) option \<Rightarrow> ('a \<times> 's world) option \<Rightarrow> bool" where
  "same_result d r1 r2 =
     (case (r1, r2) of
        (None, None) \<Rightarrow> True
      | (Some (a, w1), Some (b, w2)) \<Rightarrow> a = b \<and> self w1 = d \<and> self w2 = d
      | _ \<Rightarrow> False)"

definition same_result3 ::
  "'s decoder \<Rightarrow> ('a \<times> 'b \<times> 's world) option \<Rightarrow> ('a \<times> 'b \<times> 's world) option \<Rightarrow> bool" where
  "same_result3 d r1 r2 =
     (case (r1, r2) of
        (None, None) \<Rightarrow> True
      | (Some (a, s, w1), Some (b, t, w2)) \<Rightarrow> a = b \<and> s = t \<and> self w1 = d \<and> self w2 = d
      | _ \<Rightarrow> False)"


section \<open>Example collaborators\<close>

text \<open>
  A table embedding (the lookup of \<^verbatim>\<open>F.embedding\<close>, which fails on an index outside the
  table), a layer that adds one to every element and counts its calls in the state bag
  (a natural number), a positional embedding that adds the step found in the bag, and the
  weight matrix of ones.
\<close>

definition table_embedding :: "nat \<Rightarrow> real list list \<Rightarrow> int option \<Rightarrow> embedding" where
  "table_embedding n table pad =
     \<lparr>embedding_dim = n, padding_idx = pad, weight_dtype = Float32,
      embed_forward = (\<lambda>seq.
        if list_all (\<lambda>t. 0 \<le> t \<and> nat t < length table) (elems seq)
        then Some (Tensor (Floating Float32) (shape seq @ [n])
               (concat (map (\<lambda>t. table ! nat t) (elems seq))))
        else None)\<rparr>"

definition ex_embed :: embedding where
  "ex_embed = table_embedding 2 [[0, 0], [1, 2], [3, 4]] (Some 0)"

definition ex_embed4 :: embedding where
  "ex_embed4 = table_embedding 4 [[0, 0, 0, 0], [1, 2, 3, 4]] (Some 0)"

definition ex_layer :: "nat \<Rightarrow> nat decoder_layer" where
  "ex_layer n =
     \<lparr>layer_model_dim = n,
      layer_forward = (\<lambda>x m pm enc_out enc_pm sb.
        Some (Tensor (dtype x) (shape x) (map (\<lambda>e. e + 1) (elems x)), map_option Suc sb))\<rparr>"

definition ex_pos :: "nat \<Rightarrow> nat positional_embedding" where
  "ex_pos n =
     \<lparr>pos_embedding_dim = n,
      pos_forward = (\<lambda>x sb.
        Some (Tensor (dtype x) (shape x)
          (map (\<lambda>e. e + (case sb of None \<Rightarrow> 0 | Some k \<Rightarrow> real k)) (elems x))))\<rparr>"

definition ex_xavier :: "nat \<Rightarrow> nat \<Rightarrow> real list list" where
  "ex_xavier out inp = replicate out (replicate inp 1)"

definition ex_kw :: fct_kwargs where
  "ex_kw = \<lparr>kw_device = None, kw_dtype = None\<rparr>"

definition ex_rnd :: randomness where
  "ex_rnd = \<lparr>dropout_draws = (\<lambda>i. 3 / 4), layer_drop_draws = (\<lambda>i. if i = 0 then 1 / 4 else 3 / 4)\<rparr>"

definition ex_seq :: "int tensor" where
  "ex_seq = Tensor Int64 [3] [1, 0, 2]"

text \<open>
  A decoder over the table embedding (width 2, padding index 0) with two layers of width
  \<open>n\<close> and layer-drop probability one half, in training mode or not; a world with no call
  made yet; one forward call on the sequence \<open>[1, 0, 2]\<close>, and the world after it.
\<close>

definition ex_init :: "nat \<Rightarrow> bool \<Rightarrow> error + nat decoder" where
  "ex_init n no_scale =
     init ex_xavier ex_embed (Some (ex_pos 2)) (Sequence [ex_layer n, ex_layer n]) no_scale False 0
       None (1 / 2) POST (1 / 100000) ex_kw"

definition ex_decoder :: "nat \<Rightarrow> bool \<Rightarrow> nat decoder" where
  "ex_decoder n tr = (projr (ex_init n True))\<lparr>training := tr\<rparr>"

definition ex_world :: "nat \<Rightarrow> bool \<Rightarrow> nat world" where
  "ex_world n tr = \<lparr>self = ex_decoder n tr, calls = []\<rparr>"

definition ex_run :: "nat \<Rightarrow> bool \<Rightarrow> nat option \<Rightarrow> (real tensor \<times> nat option \<times> nat world) option" where
  "ex_run n tr sb = forward ex_seq None None sb ex_rnd (ex_world n tr)"

definition ex_after :: "nat \<Rightarrow> bool \<Rightarrow> nat option \<Rightarrow> nat world" where
  "ex_after n tr sb = snd (snd (the (ex_run n tr sb)))"

text \<open>
  A decoder over a table embedding of width 4 (so that the scale is 2) with one layer of
  width 4, with the embedding scaled or not, at inference; one forward call on the sequence
  \<open>[1, 0]\<close> with a state bag holding 1, and the world after it.
\<close>

definition ex_seq4 :: "int tensor" where
  "ex_seq4 = Tensor Int64 [2] [1, 0]"

definition ex_init4 :: "bool \<Rightarrow> error + nat decoder" where
  "ex_init4 no_scale =
     init ex_xavier ex_embed4 (Some (ex_pos 4)) (Sequence [ex_layer 4]) no_scale False 0
       None 0 POST (1 / 100000) ex_kw"

definition ex_world4 :: "bool \<Rightarrow> nat world" where
  "ex_world4 no_scale = \<lparr>self = (projr (ex_init4 no_scale))\<lparr>training := False\<rparr>, calls = []\<rparr>"

definition ex_run4 :: "bool \<Rightarrow> (real tensor \<times> nat option \<times> nat world) option" where
  "ex_run4 no_scale = forward ex_seq4 None None (Some 1) ex_rnd (ex_world4 no_scale)"

definition ex_after4 :: "bool \<Rightarrow> nat world" where
  "ex_after4 no_scale = snd (snd (the (ex_run4 no_scale)))"

section \<open>The calls a forward pass makes\<close>

lemma invoke_Some [simp]:
  "invoke c r w = Some (y, w') \<longleftrightarrow> r = Some y \<and> w' = w\<lparr>calls := calls w @ [c]\<rparr>"
  by (auto simp: invoke_def)

lemma tensor_mul_one [simp]: "tensor_mul t 1 = t"
  by (cases t) (simp add: tensor_mul_def)

lemma layer_calls_append [simp]: "layer_calls (xs @ ys) = layer_calls xs @ layer_calls ys"
  by (induction xs rule: layer_calls.induct) simp_all

lemma mask_gen_calls_append [simp]:
  "mask_gen_calls (xs @ ys) = mask_gen_calls xs @ mask_gen_calls ys"
  by (induction xs rule: mask_gen_calls.induct) simp_all

lemma pos_embed_calls_append [simp]:
  "pos_embed_calls (xs @ ys) = pos_embed_calls xs @ pos_embed_calls ys"
  by (induction xs rule: pos_embed_calls.induct) simp_all

lemma proj_calls_append [simp]: "proj_calls (xs @ ys) = proj_calls xs @ proj_calls ys"
  by (induction xs rule: proj_calls.induct) simp_all

lemma layers_loop_effect:
  "layers_loop ls x m pm eo em sb w = Some (y, sb', w') \<Longrightarrow>
     self w' = self w \<and>
     (\<exists>t. calls w' = calls w @ t \<and> layer_calls t = map (\<lambda>(i, l). (i, m, pm)) ls \<and>
          mask_gen_calls t = [] \<and> pos_embed_calls t = [] \<and> proj_calls t = [])"
proof (induction ls arbitrary: x sb w)
  case Nil
  then show ?case by simp
next
  case (Cons a ls)
  obtain i l where a: "a = (i, l)" by (cases a)
  from Cons.prems obtain x1 sb1 w1 where
    step: "layer_forward l x m pm eo em sb = Some (x1, sb1)"
      "w1 = w\<lparr>calls := calls w @ [Call_layer i x m pm eo em sb]\<rparr>"
    and rest: "layers_loop ls x1 m pm eo em sb1 w1 = Some (y, sb', w')"
    by (auto simp: a Option.bind_eq_Some_conv)
  from Cons.IH [OF rest] obtain t where
    t: "self w' = self w1" "calls w' = calls w1 @ t"
       "layer_calls t = map (\<lambda>(i, l). (i, m, pm)) ls"
       "mask_gen_calls t = []" "pos_embed_calls t = []" "proj_calls t = []"
    by blast
  show ?case
    using t step by (intro conjI exI [of _ "Call_layer i x m pm eo em sb # t"]) (simp_all add: a)
qed


lemma forward_embed_effect:
  assumes "forward_embed seq sb u w = Some (e, w')"
  shows "self w' = self w \<and> (\<exists>e0 x2 x3. embed_forward (embed (self w)) seq = Some e0 \<and>
          calls w' = calls w @ [Call_embed seq]
            @ (case pos_embed (self w) of None \<Rightarrow> []
               | Some p \<Rightarrow> [Call_pos_embed (tensor_mul e0 (embed_scale (self w))) sb])
            @ (case embed_norm (self w) of None \<Rightarrow> [] | Some n \<Rightarrow> [Call_embed_norm x2])
            @ (if embed_dropout_p (self w) > 0
               then [Call_dropout x3 (embed_dropout_p (self w)) (training (self w))] else []))"
  using assms
  by (cases "pos_embed (self w)"; cases "embed_norm (self w)";
      cases "embed_dropout_p (self w) > 0"; cases "embed_scale (self w) = 1";
      auto simp: forward_embed_def Option.bind_eq_Some_conv Let_def)

lemma forward_decoder_layers_effect:
  assumes "forward_decoder_layers x pm eo em sb u w = Some (y, sb', w')"
  shows "self w' = self w \<and>
    (training (self w) \<or> sb = None \<longrightarrow> self_attn_mask_gen (self w) x \<noteq> None) \<and>
    (\<exists>t x2.
       calls w' = calls w
         @ (if training (self w) \<or> sb = None then [Call_self_attn_mask_gen x] else [])
         @ t
         @ (case layer_norm (self w) of None \<Rightarrow> [] | Some n \<Rightarrow> [Call_layer_norm x2]) \<and>
       layer_calls t =
         map (\<lambda>(i, l). (i, self_attn_mask_of (self w) sb x, pm))
           (module_list_iter (layers (self w)) (training (self w)) u) \<and>
       mask_gen_calls t = [] \<and> pos_embed_calls t = [] \<and> proj_calls t = [])"
proof -
  define c where "c = (training (self w) \<or> sb = None)"
  define w1 where "w1 = (if c then w\<lparr>calls := calls w @ [Call_self_attn_mask_gen x]\<rparr> else w)"
  define ls where "ls = module_list_iter (layers (self w)) (training (self w)) u"
  have w1: "self w1 = self w"
    "calls w1 = calls w @ (if c then [Call_self_attn_mask_gen x] else [])"
    by (simp_all add: w1_def)
  from assms have gen: "c \<longrightarrow> self_attn_mask_gen (self w) x \<noteq> None"
    by (auto simp: forward_decoder_layers_def c_def Option.bind_eq_Some_conv)
  from assms obtain x1 w2 where
    loop: "layers_loop ls x (self_attn_mask_of (self w) sb x) pm eo em sb w1 = Some (x1, sb', w2)"
    and fin: "(case layer_norm (self w2) of
                 Some n \<Rightarrow> invoke (Call_layer_norm x1) (LayerNorm_forward n x1) w2
               | None \<Rightarrow> Some (x1, w2)) = Some (y, w')"
    by (cases c)
       (auto simp: forward_decoder_layers_def c_def w1_def ls_def self_attn_mask_of_def
          Option.bind_eq_Some_conv)
  from layers_loop_effect [OF loop] obtain t where
    t: "self w2 = self w1" "calls w2 = calls w1 @ t"
       "layer_calls t = map (\<lambda>(i, l). (i, self_attn_mask_of (self w) sb x, pm)) ls"
       "mask_gen_calls t = []" "pos_embed_calls t = []" "proj_calls t = []"
    by blast
  from fin t w1 have "self w' = self w \<and>
     calls w' = calls w2 @ (case layer_norm (self w) of None \<Rightarrow> [] | Some n \<Rightarrow> [Call_layer_norm x1])"
    by (cases "layer_norm (self w)") auto
  with t w1 gen show ?thesis
    unfolding c_def [symmetric] ls_def [symmetric] by auto
qed

lemma forward_trace:
  assumes "forward seq eo em sb rnd w = Some (y, sb', w')"
  shows "self w' = self w \<and>
    (\<exists>e0 x2 x3 x4 x5 t x6 x7.
       embed_forward (embed (self w)) seq = Some e0 \<and>
       calls w' = calls w @ [Call_embed seq]
         @ (case pos_embed (self w) of None \<Rightarrow> []
            | Some p \<Rightarrow> [Call_pos_embed (tensor_mul e0 (embed_scale (self w))) sb])
         @ (case embed_norm (self w) of None \<Rightarrow> [] | Some n \<Rightarrow> [Call_embed_norm x2])
         @ (if embed_dropout_p (self w) > 0
            then [Call_dropout x3 (embed_dropout_p (self w)) (training (self w))] else [])
         @ (case inp_dim_proj (self w) of None \<Rightarrow> [] | Some p \<Rightarrow> [Call_inp_dim_proj x4])
         @ (if training (self w) \<or> sb = None then [Call_self_attn_mask_gen x5] else [])
         @ t
         @ (case layer_norm (self w) of None \<Rightarrow> [] | Some n \<Rightarrow> [Call_layer_norm x6])
         @ (case out_dim_proj (self w) of None \<Rightarrow> [] | Some p \<Rightarrow> [Call_out_dim_proj x7]) \<and>
       (training (self w) \<or> sb = None \<longrightarrow> self_attn_mask_gen (self w) x5 \<noteq> None) \<and>
       layer_calls t =
         map (\<lambda>(i, l). (i, self_attn_mask_of (self w) sb x5,
                        get_self_attn_padding_mask (self w) seq))
           (module_list_iter (layers (self w)) (training (self w)) (layer_drop_draws rnd)) \<and>
       mask_gen_calls t = [] \<and> pos_embed_calls t = [] \<and> proj_calls t = [])"
proof -
  from assms obtain a0 w0 a1 w1 a2 w2 where
    s0: "forward_embed seq sb (dropout_draws rnd) w = Some (a0, w0)" and
    s1: "(case inp_dim_proj (self w0) of
            Some p \<Rightarrow> invoke (Call_inp_dim_proj a0) (proj_forward p a0) w0
          | None \<Rightarrow> Some (a0, w0)) = Some (a1, w1)" and
    s2: "forward_decoder_layers a1 (get_self_attn_padding_mask (self w) seq) eo em sb
           (layer_drop_draws rnd) w1 = Some (a2, sb', w2)" and
    s3: "(case out_dim_proj (self w2) of
            Some p \<Rightarrow> invoke (Call_out_dim_proj a2) (proj_forward p a2) w2
          | None \<Rightarrow> Some (a2, w2)) = Some (y, w')"
    by (auto simp: forward_def Option.bind_eq_Some_conv Let_def)
  from forward_embed_effect [OF s0] obtain e0 x2 x3 where
    e: "self w0 = self w" "embed_forward (embed (self w)) seq = Some e0"
       "calls w0 = calls w @ [Call_embed seq]
         @ (case pos_embed (self w) of None \<Rightarrow> []
            | Some p \<Rightarrow> [Call_pos_embed (tensor_mul e0 (embed_scale (self w))) sb])
         @ (case embed_norm (self w) of None \<Rightarrow> [] | Some n \<Rightarrow> [Call_embed_norm x2])
         @ (if embed_dropout_p (self w) > 0
            then [Call_dropout x3 (embed_dropout_p (self w)) (training (self w))] else [])"
    by blast
  from s1 e(1) have i: "self w1 = self w"
    "calls w1 = calls w0 @ (case inp_dim_proj (self w) of None \<Rightarrow> [] | Some p \<Rightarrow> [Call_inp_dim_proj a0])"
    by (cases "inp_dim_proj (self w)"; auto)+
  from forward_decoder_layers_effect [OF s2] i(1) obtain t x6 where
    l: "self w2 = self w"
       "training (self w) \<or> sb = None \<longrightarrow> self_attn_mask_gen (self w) a1 \<noteq> None"
       "calls w2 = calls w1
         @ (if training (self w) \<or> sb = None then [Call_self_attn_mask_gen a1] else [])
         @ t
         @ (case layer_norm (self w) of None \<Rightarrow> [] | Some n \<Rightarrow> [Call_layer_norm x6])"
       "layer_calls t =
         map (\<lambda>(i, l). (i, self_attn_mask_of (self w) sb a1,
                        get_self_attn_padding_mask (self w) seq))
           (module_list_iter (layers (self w)) (training (self w)) (layer_drop_draws rnd))"
       "mask_gen_calls t = []" "pos_embed_calls t = []" "proj_calls t = []"
    by auto
  from s3 l(1) have o: "self w' = self w"
    "calls w' = calls w2 @ (case out_dim_proj (self w) of None \<Rightarrow> [] | Some p \<Rightarrow> [Call_out_dim_proj a2])"
    by (cases "out_dim_proj (self w)"; auto)+
  show ?thesis
    apply (rule conjI [OF o(1)])
    apply (rule exI [of _ e0], rule exI [of _ x2], rule exI [of _ x3], rule exI [of _ a0],
        rule exI [of _ a1], rule exI [of _ t], rule exI [of _ x6], rule exI [of _ a2])
    using e(2) l(2) l(4) l(5) l(6) l(7) by (simp add: o(2) l(3) i(2) e(3))
qed

lemma forward_effect:
  assumes "forward seq eo em sb rnd w = Some (y, sb', w')"
  shows "self w' = self w \<and> calls w' = calls w @ made w w' \<and>
    (\<exists>e0 x.
       embed_forward (embed (self w)) seq = Some e0 \<and>
       pos_embed_calls (made w w') =
         (case pos_embed (self w) of None \<Rightarrow> []
          | Some p \<Rightarrow> [(tensor_mul e0 (embed_scale (self w)), sb)]) \<and>
       length (proj_calls (made w w')) =
         (case inp_dim_proj (self w) of None \<Rightarrow> 0 | Some p \<Rightarrow> 1) +
         (case out_dim_proj (self w) of None \<Rightarrow> 0 | Some p \<Rightarrow> 1) \<and>
       mask_gen_calls (made w w') = (if training (self w) \<or> sb = None then [x] else []) \<and>
       (training (self w) \<or> sb = None \<longrightarrow> self_attn_mask_gen (self w) x \<noteq> None) \<and>
       layer_calls (made w w') =
         map (\<lambda>(i, l). (i, self_attn_mask_of (self w) sb x,
                        get_self_attn_padding_mask (self w) seq))
           (module_list_iter (layers (self w)) (training (self w)) (layer_drop_draws rnd)))"
proof -
  from forward_trace [OF assms] obtain e0 x2 x3 x4 x5 t x6 x7 where
    tr: "self w' = self w" "embed_forward (embed (self w)) seq = Some e0"
       "calls w' = calls w @ [Call_embed seq]
         @ (case pos_embed (self w) of None \<Rightarrow> []
            | Some p \<Rightarrow> [Call_pos_embed (tensor_mul e0 (embed_scale (self w))) sb])
         @ (case embed_norm (self w) of None \<Rightarrow> [] | Some n \<Rightarrow> [Call_embed_norm x2])
         @ (if embed_dropout_p (self w) > 0
            then [Call_dropout x3 (embed_dropout_p (self w)) (training (self w))] else [])
         @ (case inp_dim_proj (self w) of None \<Rightarrow> [] | Some p \<Rightarrow> [Call_inp_dim_proj x4])
         @ (if training (self w) \<or> sb = None then [Call_self_attn_mask_gen x5] else [])
         @ t
         @ (case layer_norm (self w) of None \<Rightarrow> [] | Some n \<Rightarrow> [Call_layer_norm x6])
         @ (case out_dim_proj (self w) of None \<Rightarrow> [] | Some p \<Rightarrow> [Call_out_dim_proj x7])"
       "training (self w) \<or> sb = None \<longrightarrow> self_attn_mask_gen (self w) x5 \<noteq> None"
       "layer_calls t =
         map (\<lambda>(i, l). (i, self_attn_mask_of (self w) sb x5,
                        get_self_attn_padding_mask (self w) seq))
           (module_list_iter (layers (self w)) (training (self w)) (layer_drop_draws rnd))"
       "mask_gen_calls t = []" "pos_embed_calls t = []" "proj_calls t = []"
    by blast
  have m: "made w w' = drop (length (calls w)) (calls w')"
    by (simp add: made_def)
  have "\<exists>e0 x.
       embed_forward (embed (self w)) seq = Some e0 \<and>
       pos_embed_calls (made w w') =
         (case pos_embed (self w) of None \<Rightarrow> []
          | Some p \<Rightarrow> [(tensor_mul e0 (embed_scale (self w)), sb)]) \<and>
       length (proj_calls (made w w')) =
         (case inp_dim_proj (self w) of None \<Rightarrow> 0 | Some p \<Rightarrow> 1) +
         (case out_dim_proj (self w) of None \<Rightarrow> 0 | Some p \<Rightarrow> 1) \<and>
       mask_gen_calls (made w w') = (if training (self w) \<or> sb = None then [x] else []) \<and>
       (training (self w) \<or> sb = None \<longrightarrow> self_attn_mask_gen (self w) x \<noteq> None) \<and>
       layer_calls (made w w') =
         map (\<lambda>(i, l). (i, self_attn_mask_of (self w) sb x,
                        get_self_attn_padding_mask (self w) seq))
           (module_list_iter (layers (self w)) (training (self w)) (layer_drop_draws rnd))"
    apply (rule exI [of _ e0], rule exI [of _ x5])
    using tr(2,4) by (simp add: m tr(3) tr(5-) split: option.split)
  moreover have "calls w' = calls w @ made w w'"
    by (simp add: m tr(3))
  ultimately show ?thesis
    using tr(1) by blast
qed


text \<open>
  The tensors a forward pass hands on: the embedding stage computes its result from the
  looked-up embedding in the order scale, positional embedding, normaliser, dropout, and
  what follows the stage starts from that result.
\<close>

lemma embed_stage_inputs_append [simp]:
  "embed_stage_inputs (xs @ ys) = embed_stage_inputs xs @ embed_stage_inputs ys"
  by (induction xs rule: embed_stage_inputs.induct) simp_all

lemma stack_inputs_append [simp]:
  "stack_inputs (xs @ ys) = stack_inputs xs @ stack_inputs ys"
  by (induction xs rule: stack_inputs.induct) simp_all

lemma layers_loop_inputs:
  "layers_loop ls x m pm eo em sb w = Some (y, sb', w') \<Longrightarrow>
     \<exists>t. calls w' = calls w @ t \<and> embed_stage_inputs t = [] \<and> pos_embed_calls t = [] \<and>
         (ls \<noteq> [] \<longrightarrow> (\<exists>r. stack_inputs t = x # r))"
proof (induction ls arbitrary: x sb w)
  case Nil
  then show ?case by simp
next
  case (Cons a ls)
  obtain i l where a: "a = (i, l)" by (cases a)
  from Cons.prems obtain x1 sb1 w1 where
    step: "w1 = w\<lparr>calls := calls w @ [Call_layer i x m pm eo em sb]\<rparr>"
    and rest: "layers_loop ls x1 m pm eo em sb1 w1 = Some (y, sb', w')"
    by (auto simp: a Option.bind_eq_Some_conv)
  from Cons.IH [OF rest] obtain t where
    t: "calls w' = calls w1 @ t" "embed_stage_inputs t = []" "pos_embed_calls t = []"
    by blast
  show ?case
    using t step by (intro exI [of _ "Call_layer i x m pm eo em sb # t"]) simp
qed

lemma forward_embed_inputs:
  assumes "forward_embed seq sb u w = Some (e, w')"
  shows "self w' = self w \<and> (\<exists>e0 e1 e2. embed_forward (embed (self w)) seq = Some e0 \<and>
     (case pos_embed (self w) of
        None \<Rightarrow> e1 = tensor_mul e0 (embed_scale (self w))
      | Some p \<Rightarrow> pos_forward p (tensor_mul e0 (embed_scale (self w))) sb = Some e1) \<and>
     (case embed_norm (self w) of None \<Rightarrow> e2 = e1 | Some n \<Rightarrow> LayerNorm_forward n e1 = Some e2) \<and>
     e = (if embed_dropout_p (self w) > 0
          then dropout e2 (embed_dropout_p (self w)) (training (self w)) u else e2) \<and>
     calls w' = calls w @ [Call_embed seq]
       @ (case pos_embed (self w) of None \<Rightarrow> []
          | Some p \<Rightarrow> [Call_pos_embed (tensor_mul e0 (embed_scale (self w))) sb])
       @ (case embed_norm (self w) of None \<Rightarrow> [] | Some n \<Rightarrow> [Call_embed_norm e1])
       @ (if embed_dropout_p (self w) > 0
          then [Call_dropout e2 (embed_dropout_p (self w)) (training (self w))] else []))"
  using assms
  by (cases "pos_embed (self w)"; cases "embed_norm (self w)";
      cases "embed_dropout_p (self w) > 0"; cases "embed_scale (self w) = 1";
      auto simp: forward_embed_def Option.bind_eq_Some_conv Let_def)

lemma forward_decoder_layers_inputs:
  assumes "forward_decoder_layers x pm eo em sb u w = Some (y, sb', w')"
    and "training (self w) \<or> sb = None \<or> modules (layers (self w)) \<noteq> []"
  shows "\<exists>t r. calls w' = calls w @ t \<and> embed_stage_inputs t = [] \<and> pos_embed_calls t = [] \<and>
    stack_inputs t = x # r"
proof -
  define c where "c = (training (self w) \<or> sb = None)"
  define w1 where "w1 = (if c then w\<lparr>calls := calls w @ [Call_self_attn_mask_gen x]\<rparr> else w)"
  define ls where "ls = module_list_iter (layers (self w)) (training (self w)) u"
  have w1: "self w1 = self w"
    "calls w1 = calls w @ (if c then [Call_self_attn_mask_gen x] else [])"
    by (simp_all add: w1_def)
  from assms(1) obtain x1 w2 where
    loop: "layers_loop ls x (self_attn_mask_of (self w) sb x) pm eo em sb w1 = Some (x1, sb', w2)"
    and fin: "(case layer_norm (self w2) of
                 Some n \<Rightarrow> invoke (Call_layer_norm x1) (LayerNorm_forward n x1) w2
               | None \<Rightarrow> Some (x1, w2)) = Some (y, w')"
    by (cases c)
       (auto simp: forward_decoder_layers_def c_def w1_def ls_def self_attn_mask_of_def
          Option.bind_eq_Some_conv)
  from layers_loop_inputs [OF loop] obtain t where
    t: "calls w2 = calls w1 @ t" "embed_stage_inputs t = []" "pos_embed_calls t = []"
       "ls \<noteq> [] \<longrightarrow> (\<exists>r. stack_inputs t = x # r)"
    by blast
  from fin have f: "calls w' = calls w2 @ (case layer_norm (self w2) of None \<Rightarrow> [] | Some n \<Rightarrow> [Call_layer_norm x1])"
    by (cases "layer_norm (self w2)") auto
  have ne: "\<not> c \<longrightarrow> ls \<noteq> []"
    using assms(2) by (auto simp: c_def ls_def module_list_iter_def enumerate_eq_zip)
  define t' where "t' = (if c then [Call_self_attn_mask_gen x] else [])
         @ t @ (case layer_norm (self w2) of None \<Rightarrow> [] | Some n \<Rightarrow> [Call_layer_norm x1])"
  have 1: "calls w' = calls w @ t'"
    by (simp add: t'_def f t(1) w1(2))
  have 2: "embed_stage_inputs t' = []"
    by (simp add: t'_def t(2) split: option.split)
  have 3: "\<exists>r. stack_inputs t' = x # r"
    using t(4) ne by (cases c) (auto simp: t'_def)
  have 4: "pos_embed_calls t' = []"
    by (simp add: t'_def t(3) split: option.split)
  from 1 2 3 4 show ?thesis by blast
qed

lemma forward_inputs:
  fixes w :: "'a world"
  assumes "forward seq eo em sb rnd w = Some (y, sb', w')"
    and "training (self w) \<or> sb = None \<or> modules (layers (self w)) \<noteq> []"
  shows "\<exists>e0 e1 e2 e w0.
     embed_forward (embed (self w)) seq = Some e0 \<and>
     (case pos_embed (self w) of
        None \<Rightarrow> e1 = tensor_mul e0 (embed_scale (self w))
      | Some p \<Rightarrow> pos_forward p (tensor_mul e0 (embed_scale (self w))) sb = Some e1) \<and>
     (case embed_norm (self w) of None \<Rightarrow> e2 = e1 | Some n \<Rightarrow> LayerNorm_forward n e1 = Some e2) \<and>
     e = (if embed_dropout_p (self w) > 0
          then dropout e2 (embed_dropout_p (self w)) (training (self w)) (dropout_draws rnd)
          else e2) \<and>
     forward_embed seq sb (dropout_draws rnd) w = Some (e, w0) \<and>
     pos_embed_calls (made w w') =
       (case pos_embed (self w) of None \<Rightarrow> []
        | Some p \<Rightarrow> [(tensor_mul e0 (embed_scale (self w)), sb)]) \<and>
     embed_stage_inputs (made w w') =
       (case pos_embed (self w) of None \<Rightarrow> []
        | Some p \<Rightarrow> [tensor_mul e0 (embed_scale (self w))])
       @ (case embed_norm (self w) of None \<Rightarrow> [] | Some n \<Rightarrow> [e1])
       @ (if embed_dropout_p (self w) > 0 then [e2] else []) \<and>
     (\<exists>r. stack_inputs (made w w') = e # r)"
proof -
  from assms(1) obtain a0 w0 a1 w1 a2 w2 where
    s0: "forward_embed seq sb (dropout_draws rnd) w = Some (a0, w0)" and
    s1: "(case inp_dim_proj (self w0) of
            Some p \<Rightarrow> invoke (Call_inp_dim_proj a0) (proj_forward p a0) w0
          | None \<Rightarrow> Some (a0, w0)) = Some (a1, w1)" and
    s2: "forward_decoder_layers a1 (get_self_attn_padding_mask (self w) seq) eo em sb
           (layer_drop_draws rnd) w1 = Some (a2, sb', w2)" and
    s3: "(case out_dim_proj (self w2) of
            Some p \<Rightarrow> invoke (Call_out_dim_proj a2) (proj_forward p a2) w2
          | None \<Rightarrow> Some (a2, w2)) = Some (y, w')"
    by (auto simp: forward_def Option.bind_eq_Some_conv Let_def)
  from forward_embed_inputs [OF s0] obtain e0 e1 e2 where
    e: "self w0 = self w" "embed_forward (embed (self w)) seq = Some e0"
       "(case pos_embed (self w) of
          None \<Rightarrow> e1 = tensor_mul e0 (embed_scale (self w))
        | Some p \<Rightarrow> pos_forward p (tensor_mul e0 (embed_scale (self w))) sb = Some e1)"
       "(case embed_norm (self w) of None \<Rightarrow> e2 = e1 | Some n \<Rightarrow> LayerNorm_forward n e1 = Some e2)"
       "a0 = (if embed_dropout_p (self w) > 0
          then dropout e2 (embed_dropout_p (self w)) (training (self w)) (dropout_draws rnd)
          else e2)"
       "calls w0 = calls w @ [Call_embed seq]
         @ (case pos_embed (self w) of None \<Rightarrow> []
            | Some p \<Rightarrow> [Call_pos_embed (tensor_mul e0 (embed_scale (self w))) sb])
         @ (case embed_norm (self w) of None \<Rightarrow> [] | Some n \<Rightarrow> [Call_embed_norm e1])
         @ (if embed_dropout_p (self w) > 0
            then [Call_dropout e2 (embed_dropout_p (self w)) (training (self w))] else [])"
    by blast
  define ti :: "'a call list"
    where "ti = (case inp_dim_proj (self w) of None \<Rightarrow> [] | Some p \<Rightarrow> [Call_inp_dim_proj a0])"
  from s1 e(1) have i: "self w1 = self w" "calls w1 = calls w0 @ ti"
    "inp_dim_proj (self w) = None \<longrightarrow> a1 = a0"
    by (cases "inp_dim_proj (self w)"; auto simp: ti_def)+
  from forward_decoder_layers_inputs [OF s2] assms(2) i(1) obtain t r where
    l: "calls w2 = calls w1 @ t" "embed_stage_inputs t = []" "stack_inputs t = a1 # r"
       "pos_embed_calls t = []"
    by auto
  define to :: "'a call list"
    where "to = (case out_dim_proj (self w2) of None \<Rightarrow> [] | Some p \<Rightarrow> [Call_out_dim_proj a2])"
  from s3 have o: "calls w' = calls w2 @ to"
    by (cases "out_dim_proj (self w2)"; auto simp: to_def)
  have m: "made w w' = [Call_embed seq]
         @ (case pos_embed (self w) of None \<Rightarrow> []
            | Some p \<Rightarrow> [Call_pos_embed (tensor_mul e0 (embed_scale (self w))) sb])
         @ (case embed_norm (self w) of None \<Rightarrow> [] | Some n \<Rightarrow> [Call_embed_norm e1])
         @ (if embed_dropout_p (self w) > 0
            then [Call_dropout e2 (embed_dropout_p (self w)) (training (self w))] else [])
         @ ti @ t @ to"
    by (simp add: made_def o l(1) i(2) e(6))
  have ti: "embed_stage_inputs ti = []" "pos_embed_calls ti = []"
    "\<exists>r. stack_inputs ti @ stack_inputs t = a0 # r"
    using i(3) l(3) by (cases "inp_dim_proj (self w)"; simp add: ti_def)+
  then obtain r0 where r0: "stack_inputs ti @ stack_inputs t = a0 # r0"
    by blast
  have to: "embed_stage_inputs to = []" "pos_embed_calls to = []"
    by (cases "out_dim_proj (self w2)"; simp add: to_def)+
  have p: "pos_embed_calls (made w w') =
       (case pos_embed (self w) of None \<Rightarrow> []
        | Some p \<Rightarrow> [(tensor_mul e0 (embed_scale (self w)), sb)])"
    by (simp add: m ti to l split: option.split)
  have q: "embed_stage_inputs (made w w') =
       (case pos_embed (self w) of None \<Rightarrow> []
        | Some p \<Rightarrow> [tensor_mul e0 (embed_scale (self w))])
       @ (case embed_norm (self w) of None \<Rightarrow> [] | Some n \<Rightarrow> [e1])
       @ (if embed_dropout_p (self w) > 0 then [e2] else [])"
    by (simp add: m ti to l split: option.split)
  have "stack_inputs (made w w') = (stack_inputs ti @ stack_inputs t) @ stack_inputs to"
    by (simp add: m split: option.split)
  then have r: "\<exists>r. stack_inputs (made w w') = a0 # r"
    unfolding r0 by simp
  show ?thesis
    apply (rule exI [of _ e0], rule exI [of _ e1], rule exI [of _ e2], rule exI [of _ a0],
        rule exI [of _ w0])
    using e(2) e(3) e(4) e(5) s0 p q r by simp
qed

section \<open>What the constructor builds\<close>

lemma init_Inr:
  assumes "init xavier emb pos ls nse ne dp mg ldp no neps kw = Inr d"
  shows "fst (iterate ls) \<noteq> [] \<and>
    check_layers (layer_model_dim (hd (fst (iterate ls)))) 0 (fst (iterate (snd (iterate ls)))) = None \<and>
    (\<forall>p. pos = Some p \<longrightarrow> pos_embedding_dim p = embedding_dim emb) \<and>
    d = \<lparr>model_dim = layer_model_dim (hd (fst (iterate ls))),
         embed = emb,
         embed_scale = (if nse then 1 else sqrt (real (embedding_dim emb))),
         pos_embed = pos,
         embed_norm = (if ne then Some (new_LayerNorm (embedding_dim emb) neps kw) else None),
         embed_dropout_p = dp,
         inp_dim_proj =
           (if embedding_dim emb \<noteq> layer_model_dim (hd (fst (iterate ls)))
            then Some (InternalDimProjection xavier (embedding_dim emb)
                         (layer_model_dim (hd (fst (iterate ls)))) kw)
            else None),
         self_attn_mask_gen = (case mg of None \<Rightarrow> CausalAttentionMaskGenerator | Some g \<Rightarrow> g),
         layers = ModuleList (fst (iterate ls)) ldp,
         layer_norm =
           (if no \<noteq> POST
            then Some (new_LayerNorm (layer_model_dim (hd (fst (iterate ls)))) neps kw) else None),
         out_dim_proj =
           (if embedding_dim emb \<noteq> layer_model_dim (hd (fst (iterate ls)))
            then Some (InternalDimProjection xavier (layer_model_dim (hd (fst (iterate ls))))
                         (embedding_dim emb) kw)
            else None),
         training = True\<rparr>"
proof -
  obtain items ls1 where it: "iterate ls = (items, ls1)" by force
  obtain items2 ls2 where it2: "iterate ls1 = (items2, ls2)" by force
  from assms have ne: "items \<noteq> []"
    by (auto simp: init_def it ModuleList_def split: if_splits)
  from assms ne have chk: "check_layers (layer_model_dim (hd items)) 0 items2 = None"
    by (cases "check_layers (layer_model_dim (hd items)) 0 items2")
       (simp_all add: init_def it it2 ModuleList_def)
  from assms ne chk have pos: "\<forall>p. pos = Some p \<longrightarrow> pos_embedding_dim p = embedding_dim emb"
    by (cases pos) (auto simp: init_def it it2 ModuleList_def Let_def split: if_splits)
  from assms ne chk pos show ?thesis
    by (cases pos) (auto simp: init_def it it2 ModuleList_def Let_def)
qed

section \<open>The example decoder\<close>

lemma ex_init_eq:
  "ex_init n nse = Inr
     \<lparr>model_dim = n, embed = ex_embed, embed_scale = (if nse then 1 else sqrt 2),
      pos_embed = Some (ex_pos 2), embed_norm = None, embed_dropout_p = 0,
      inp_dim_proj = (if 2 \<noteq> n then Some (InternalDimProjection ex_xavier 2 n ex_kw) else None),
      self_attn_mask_gen = CausalAttentionMaskGenerator,
      layers = \<lparr>modules = [ex_layer n, ex_layer n], drop_p = 1 / 2\<rparr>,
      layer_norm = None,
      out_dim_proj = (if 2 \<noteq> n then Some (InternalDimProjection ex_xavier n 2 ex_kw) else None),
      training = True\<rparr>"
  by (simp add: ex_init_def init_def ModuleList_def ex_layer_def ex_embed_def table_embedding_def
      ex_pos_def)

lemma ex_run_Some: "\<exists>y s w'. ex_run n tr sb = Some (y, s, w')"
  by (cases "n = 2"; cases tr; cases sb)
     (simp_all add: ex_run_def ex_world_def ex_decoder_def ex_init_eq forward_def forward_embed_def
      forward_decoder_layers_def invoke_def get_self_attn_padding_mask_def ex_embed_def
      table_embedding_def ex_pos_def ex_seq_def ex_rnd_def module_list_iter_def
      CausalAttentionMaskGenerator_def ex_layer_def enumerate_eq_zip proj_forward_def
      InternalDimProjection_def Let_def)


lemma ex_init_Inr:
  "init ex_xavier ex_embed (Some (ex_pos 2)) (Sequence [ex_layer n, ex_layer n]) nse False 0
     None (1 / 2) POST (1 / 100000) ex_kw = Inr (projr (ex_init n nse))"
  unfolding ex_init_def [symmetric] by (simp add: ex_init_eq)

lemma ex_init4_eq:
  "ex_init4 nse = Inr
     \<lparr>model_dim = 4, embed = ex_embed4, embed_scale = (if nse then 1 else 2),
      pos_embed = Some (ex_pos 4), embed_norm = None, embed_dropout_p = 0,
      inp_dim_proj = None,
      self_attn_mask_gen = CausalAttentionMaskGenerator,
      layers = \<lparr>modules = [ex_layer 4], drop_p = 0\<rparr>,
      layer_norm = None,
      out_dim_proj = None,
      training = True\<rparr>"
  by (simp add: ex_init4_def init_def ModuleList_def ex_layer_def ex_embed4_def table_embedding_def
      ex_pos_def)

lemma ex_init4_Inr:
  "init ex_xavier ex_embed4 (Some (ex_pos 4)) (Sequence [ex_layer 4]) nse False 0
     None 0 POST (1 / 100000) ex_kw = Inr (projr (ex_init4 nse))"
  unfolding ex_init4_def [symmetric] by (simp add: ex_init4_eq)

lemma ex_run4_Some: "\<exists>y s w'. ex_run4 nse = Some (y, s, w')"
  by (simp add: ex_run4_def ex_world4_def ex_init4_eq forward_def forward_embed_def
      forward_decoder_layers_def invoke_def get_self_attn_padding_mask_def ex_embed4_def
      table_embedding_def ex_pos_def ex_seq4_def ex_rnd_def module_list_iter_def
      ex_layer_def enumerate_eq_zip Let_def tensor_mul_def)

lemmas ex_defs =
  ex_run_def ex_after_def ex_world_def ex_decoder_def ex_init_eq forward_def forward_embed_def
  forward_decoder_layers_def invoke_def get_self_attn_padding_mask_def ex_embed_def
  table_embedding_def ex_pos_def ex_seq_def ex_rnd_def module_list_iter_def
  CausalAttentionMaskGenerator_def ex_layer_def enumerate_eq_zip proj_forward_def
  InternalDimProjection_def Let_def made_def

section \<open>The self-attention mask\<close>

text \<open>
  Claim C3. In every forward call that returns, the mask generator is invoked if and only if
  the module is in training mode or no state bag is supplied. When it is invoked, it is
  invoked once and every layer called receives the mask it returned; otherwise no mask is
  built and every layer called receives \<open>None\<close> as its self-attention mask.
\<close>

theorem self_attn_mask_built_iff_training_or_no_state_bag:
  assumes "forward seq enc_out enc_padding_mask state_bag rnd w = Some (y, state_bag', w')"
  shows "(mask_gen_calls (made w w') \<noteq> [] \<longleftrightarrow> training (self w) \<or> state_bag = None) \<and>
    (if training (self w) \<or> state_bag = None
     then \<exists>x m. mask_gen_calls (made w w') = [x] \<and> self_attn_mask_gen (self w) x = Some m \<and>
            list_all (\<lambda>(i, sm, pm). sm = Some m) (layer_calls (made w w'))
     else list_all (\<lambda>(i, sm, pm). sm = None) (layer_calls (made w w')))"
proof -
  from forward_effect [OF assms] obtain x where
    g: "mask_gen_calls (made w w') = (if training (self w) \<or> state_bag = None then [x] else [])"
       "training (self w) \<or> state_bag = None \<longrightarrow> self_attn_mask_gen (self w) x \<noteq> None"
    and l: "layer_calls (made w w') =
         map (\<lambda>(i, l). (i, self_attn_mask_of (self w) state_bag x,
                        get_self_attn_padding_mask (self w) seq))
           (module_list_iter (layers (self w)) (training (self w)) (layer_drop_draws rnd))"
    by blast
  show ?thesis
  proof (cases "training (self w) \<or> state_bag = None")
    case True
    with g obtain m where m: "self_attn_mask_gen (self w) x = Some m" by blast
    with True g have "mask_gen_calls (made w w') = [x] \<and> self_attn_mask_gen (self w) x = Some m \<and>
            list_all (\<lambda>(i, sm, pm). sm = Some m) (layer_calls (made w w'))"
      by (simp add: l self_attn_mask_of_def list_all_iff split_def)
    with True show ?thesis by auto
  next
    case False
    with g show ?thesis
      by (auto simp: l self_attn_mask_of_def list_all_iff split_def)
  qed
qed

theorem self_attn_mask_built_iff_training_or_no_state_bag_witness:
  "ex_run 2 False (Some 0) \<noteq> None \<and> \<not> training (self (ex_world 2 False)) \<and>
   mask_gen_calls (made (ex_world 2 False) (ex_after 2 False (Some 0))) = [] \<and>
   list_all (\<lambda>(i, sm, pm). sm = None)
     (layer_calls (made (ex_world 2 False) (ex_after 2 False (Some 0)))) \<and>
   map fst (layer_calls (made (ex_world 2 False) (ex_after 2 False (Some 0)))) = [0, 1] \<and>
   ex_run 2 False None \<noteq> None \<and>
   length (mask_gen_calls (made (ex_world 2 False) (ex_after 2 False None))) = 1 \<and>
   list_all (\<lambda>(i, sm, pm). sm \<noteq> None)
     (layer_calls (made (ex_world 2 False) (ex_after 2 False None)))"
proof -
  obtain y s w' where r: "ex_run 2 False (Some 0) = Some (y, s, w')"
    using ex_run_Some by blast
  obtain y2 s2 w2 where r2: "ex_run 2 False None = Some (y2, s2, w2)"
    using ex_run_Some by blast
  have t: "\<not> training (self (ex_world 2 False))"
    by (simp add: ex_world_def ex_decoder_def)
  have a: "ex_after 2 False (Some 0) = w'" "ex_after 2 False None = w2"
    by (simp_all add: ex_after_def r r2)
  from self_attn_mask_built_iff_training_or_no_state_bag [OF r [unfolded ex_run_def]] t
  have 1: "mask_gen_calls (made (ex_world 2 False) w') = [] \<and>
     list_all (\<lambda>(i, sm, pm). sm = None) (layer_calls (made (ex_world 2 False) w'))"
    by simp
  from self_attn_mask_built_iff_training_or_no_state_bag [OF r2 [unfolded ex_run_def]]
  have 2: "length (mask_gen_calls (made (ex_world 2 False) w2)) = 1 \<and>
     list_all (\<lambda>(i, sm, pm). sm \<noteq> None) (layer_calls (made (ex_world 2 False) w2))"
    by (auto simp: list_all_iff)
  have 3: "map fst (layer_calls (made (ex_world 2 False) (ex_after 2 False (Some 0)))) = [0, 1]"
    by (simp add: ex_defs)
  from 1 2 3 t r r2 show ?thesis
    by (simp add: a)
qed


section \<open>The padding mask\<close>

text \<open>
  Claim C5. If the embedding has a padding index, the padding mask derived from a sequence
  has the shape of the sequence and marks exactly the positions that hold the padding index,
  and it is built whether or not any position is marked; if the embedding has no padding
  index, no padding mask is computed and the result is \<open>None\<close>.
\<close>

theorem padding_mask_marks_exactly_padding:
  "(padding_idx (embed d) = None \<longrightarrow> get_self_attn_padding_mask d seq = None) \<and>
   (\<forall>p. padding_idx (embed d) = Some p \<longrightarrow>
      (\<exists>m. get_self_attn_padding_mask d seq = Some m \<and> shape m = shape seq \<and>
           length (elems m) = length (elems seq) \<and>
           marked m = {i. i < length (elems seq) \<and> elems seq ! i = p}))"
  by (auto simp: get_self_attn_padding_mask_def to_float_mask_def tensor_eq_def marked_def
      split: if_splits)

theorem padding_mask_marks_exactly_padding_witness:
  "padding_idx (embed (ex_decoder 2 False)) = Some 0 \<and>
   get_self_attn_padding_mask (ex_decoder 2 False) ex_seq =
     Some (Tensor (Floating Float32) [3] [Fin 0, NegInf, Fin 0]) \<and>
   marked (the (get_self_attn_padding_mask (ex_decoder 2 False) ex_seq)) =
     {i. i < length (elems ex_seq) \<and> elems ex_seq ! i = 0} \<and>
   elems ex_seq = [1, 0, 2] \<and>
   get_self_attn_padding_mask (ex_decoder 2 False) (Tensor Int64 [2] [1, 2]) =
     Some (Tensor (Floating Float32) [2] [Fin 0, Fin 0]) \<and>
   padding_idx (embed ((ex_decoder 2 False)\<lparr>embed := ex_embed\<lparr>padding_idx := None\<rparr>\<rparr>)) = None \<and>
   get_self_attn_padding_mask ((ex_decoder 2 False)\<lparr>embed := ex_embed\<lparr>padding_idx := None\<rparr>\<rparr>)
     ex_seq = None"
proof -
  have p: "padding_idx (embed (ex_decoder 2 False)) = Some 0"
    by (simp add: ex_decoder_def ex_init_eq ex_embed_def table_embedding_def)
  have v: "get_self_attn_padding_mask (ex_decoder 2 False) ex_seq =
     Some (Tensor (Floating Float32) [3] [Fin 0, NegInf, Fin 0])"
    by (simp add: ex_decoder_def ex_init_eq ex_embed_def table_embedding_def ex_seq_def
        get_self_attn_padding_mask_def to_float_mask_def tensor_eq_def)
  have n: "get_self_attn_padding_mask (ex_decoder 2 False) (Tensor Int64 [2] [1, 2]) =
     Some (Tensor (Floating Float32) [2] [Fin 0, Fin 0])"
    by (simp add: ex_decoder_def ex_init_eq ex_embed_def table_embedding_def
        get_self_attn_padding_mask_def to_float_mask_def tensor_eq_def)
  have q: "padding_idx (embed ((ex_decoder 2 False)\<lparr>embed := ex_embed\<lparr>padding_idx := None\<rparr>\<rparr>)) = None"
    by simp
  from padding_mask_marks_exactly_padding [of "ex_decoder 2 False" ex_seq] p
  obtain m where "get_self_attn_padding_mask (ex_decoder 2 False) ex_seq = Some m"
    "marked m = {i. i < length (elems ex_seq) \<and> elems ex_seq ! i = 0}"
    by blast
  then have "marked (the (get_self_attn_padding_mask (ex_decoder 2 False) ex_seq)) =
     {i. i < length (elems ex_seq) \<and> elems ex_seq ! i = 0}"
    by simp
  moreover have "elems ex_seq = [1, 0, 2]"
    by (simp add: ex_seq_def)
  moreover from padding_mask_marks_exactly_padding
    [of "(ex_decoder 2 False)\<lparr>embed := ex_embed\<lparr>padding_idx := None\<rparr>\<rparr>" ex_seq] q
  have "get_self_attn_padding_mask ((ex_decoder 2 False)\<lparr>embed := ex_embed\<lparr>padding_idx := None\<rparr>\<rparr>)
     ex_seq = None"
    by blast
  ultimately show ?thesis
    using p v q n by blast
qed

text \<open>
  Claim C10. Whenever the embedding has a padding index, the padding mask that every layer
  called by a forward pass receives is the float mask made from the comparison of the
  sequence with the padding index, in the floating-point type of the embedding weight, and
  never a boolean tensor.
\<close>

theorem layers_receive_float_padding_mask:
  assumes "forward seq enc_out enc_padding_mask state_bag rnd w = Some (y, state_bag', w')"
    and "padding_idx (embed (self w)) = Some p"
  shows "list_all (\<lambda>(i, sm, pm). \<exists>m. pm = Some m \<and>
            m = to_float_mask (tensor_eq seq p) (weight_dtype (embed (self w))) \<and>
            dtype m = Floating (weight_dtype (embed (self w))) \<and> dtype m \<noteq> Bool)
          (layer_calls (made w w'))"
proof -
  from forward_effect [OF assms(1)] obtain x where
    l: "layer_calls (made w w') =
         map (\<lambda>(i, l). (i, self_attn_mask_of (self w) state_bag x,
                        get_self_attn_padding_mask (self w) seq))
           (module_list_iter (layers (self w)) (training (self w)) (layer_drop_draws rnd))"
    by blast
  show ?thesis
    using assms(2)
    by (simp add: l list_all_iff split_def get_self_attn_padding_mask_def to_float_mask_def)
qed

theorem layers_receive_float_padding_mask_witness:
  "ex_run 2 False (Some 0) \<noteq> None \<and>
   padding_idx (embed (self (ex_world 2 False))) = Some 0 \<and>
   list_all (\<lambda>(i, sm, pm). \<exists>m. pm = Some m \<and>
       m = to_float_mask (tensor_eq ex_seq 0) Float32 \<and>
       dtype m = Floating Float32 \<and> dtype m \<noteq> Bool)
     (layer_calls (made (ex_world 2 False) (ex_after 2 False (Some 0)))) \<and>
   map (snd \<circ> snd) (layer_calls (made (ex_world 2 False) (ex_after 2 False (Some 0)))) =
     [Some (Tensor (Floating Float32) [3] [Fin 0, NegInf, Fin 0]),
      Some (Tensor (Floating Float32) [3] [Fin 0, NegInf, Fin 0])]"
proof -
  obtain y s w' where r: "ex_run 2 False (Some 0) = Some (y, s, w')"
    using ex_run_Some by blast
  have p: "padding_idx (embed (self (ex_world 2 False))) = Some 0"
    "weight_dtype (embed (self (ex_world 2 False))) = Float32"
    by (simp_all add: ex_world_def ex_decoder_def ex_init_eq ex_embed_def table_embedding_def)
  have a: "ex_after 2 False (Some 0) = w'"
    by (simp add: ex_after_def r)
  have e: "map (snd \<circ> snd) (layer_calls (made (ex_world 2 False) (ex_after 2 False (Some 0)))) =
     [Some (Tensor (Floating Float32) [3] [Fin 0, NegInf, Fin 0]),
      Some (Tensor (Floating Float32) [3] [Fin 0, NegInf, Fin 0])]"
    by (simp add: ex_defs to_float_mask_def tensor_eq_def)
  from layers_receive_float_padding_mask [OF r [unfolded ex_run_def] p(1)] p e r show ?thesis
    by (simp add: a)
qed

section \<open>The dimension adapters\<close>

text \<open>
  Claim C7. A constructed decoder has its input-side adapter, and its output-side adapter,
  if and only if the embedding width differs from the model width. When the widths are equal
  neither adapter exists, they add no parameter, and no forward pass of the decoder, in
  training mode or not, calls a dimension projection.
\<close>

theorem adapters_exist_iff_dims_differ:
  assumes "init xavier emb pos ls nse ne dp mg ldp no neps kw = Inr d"
  shows "(inp_dim_proj d \<noteq> None \<longleftrightarrow> embedding_dim emb \<noteq> model_dim d) \<and>
    (out_dim_proj d \<noteq> None \<longleftrightarrow> embedding_dim emb \<noteq> model_dim d) \<and>
    (embedding_dim emb = model_dim d \<longrightarrow>
       num_parameters (inp_dim_proj d) + num_parameters (out_dim_proj d) = 0 \<and>
       (\<forall>seq eo em sb rnd tr cs y sb' w'.
          forward seq eo em sb rnd \<lparr>self = d\<lparr>training := tr\<rparr>, calls = cs\<rparr> = Some (y, sb', w') \<longrightarrow>
          proj_calls (made \<lparr>self = d\<lparr>training := tr\<rparr>, calls = cs\<rparr> w') = []))"
proof -
  from init_Inr [OF assms]
  have a: "inp_dim_proj d \<noteq> None \<longleftrightarrow> embedding_dim emb \<noteq> model_dim d"
    and b: "out_dim_proj d \<noteq> None \<longleftrightarrow> embedding_dim emb \<noteq> model_dim d"
    by auto
  have c: "proj_calls (made \<lparr>self = d\<lparr>training := tr\<rparr>, calls = cs\<rparr> w') = []"
    if eq: "embedding_dim emb = model_dim d"
      and f: "forward seq eo em sb rnd \<lparr>self = d\<lparr>training := tr\<rparr>, calls = cs\<rparr> = Some (y, sb', w')"
    for seq eo em sb rnd tr cs y sb' w'
  proof -
    from a b eq have "inp_dim_proj d = None" "out_dim_proj d = None" by auto
    with forward_effect [OF f] show ?thesis by auto
  qed
  have p: "num_parameters (inp_dim_proj d) + num_parameters (out_dim_proj d) = 0"
    if "embedding_dim emb = model_dim d"
    using that a b by (auto simp: num_parameters_def)
  from a b c p show ?thesis by blast
qed

theorem adapters_exist_iff_dims_differ_witness:
  "ex_init 2 True = Inr (projr (ex_init 2 True)) \<and>
   embedding_dim ex_embed = model_dim (projr (ex_init 2 True)) \<and>
   inp_dim_proj (projr (ex_init 2 True)) = None \<and>
   out_dim_proj (projr (ex_init 2 True)) = None \<and>
   num_parameters (inp_dim_proj (projr (ex_init 2 True))) +
     num_parameters (out_dim_proj (projr (ex_init 2 True))) = 0 \<and>
   ex_run 2 False None \<noteq> None \<and>
   proj_calls (made (ex_world 2 False) (ex_after 2 False None)) = [] \<and>
   ex_init 3 True = Inr (projr (ex_init 3 True)) \<and>
   embedding_dim ex_embed \<noteq> model_dim (projr (ex_init 3 True)) \<and>
   inp_dim_proj (projr (ex_init 3 True)) \<noteq> None \<and>
   out_dim_proj (projr (ex_init 3 True)) \<noteq> None \<and>
   num_parameters (inp_dim_proj (projr (ex_init 3 True))) +
     num_parameters (out_dim_proj (projr (ex_init 3 True))) = 17"
proof -
  have i2: "ex_init 2 True = Inr (projr (ex_init 2 True))"
    and i3: "ex_init 3 True = Inr (projr (ex_init 3 True))"
    by (simp_all add: ex_init_eq)
  have m: "embedding_dim ex_embed = model_dim (projr (ex_init 2 True))"
    "embedding_dim ex_embed \<noteq> model_dim (projr (ex_init 3 True))"
    by (simp_all add: ex_init_eq ex_embed_def table_embedding_def)
  obtain y s w' where r: "ex_run 2 False None = Some (y, s, w')"
    using ex_run_Some by blast
  have a: "ex_after 2 False None = w'"
    by (simp add: ex_after_def r)
  have n: "num_parameters (inp_dim_proj (projr (ex_init 3 True))) +
     num_parameters (out_dim_proj (projr (ex_init 3 True))) = 17"
    by (simp add: ex_init_eq num_parameters_def InternalDimProjection_def)
  note t2 = adapters_exist_iff_dims_differ [OF i2 [unfolded ex_init_def], folded ex_init_def]
  note t3 = adapters_exist_iff_dims_differ [OF i3 [unfolded ex_init_def], folded ex_init_def]
  from t2 m(1) have "inp_dim_proj (projr (ex_init 2 True)) = None"
    "out_dim_proj (projr (ex_init 2 True)) = None"
    "num_parameters (inp_dim_proj (projr (ex_init 2 True))) +
     num_parameters (out_dim_proj (projr (ex_init 2 True))) = 0"
    "proj_calls (made (ex_world 2 False) w') = []"
    using r by (auto simp: ex_run_def ex_world_def ex_decoder_def)
  moreover from t3 m(2) have "inp_dim_proj (projr (ex_init 3 True)) \<noteq> None"
    "out_dim_proj (projr (ex_init 3 True)) \<noteq> None"
    by blast+
  ultimately show ?thesis
    using i2 i3 m r n by (simp add: a)
qed

section \<open>The frame of a forward pass\<close>

text \<open>
  Claim C9. A forward call that returns leaves the decoder object as it was: the world after
  the call differs from the world before only in the calls recorded. The padding mask every
  layer receives is the one computed from this call's sequence, and a self-attention mask a
  layer receives is the result of an invocation of the mask generator made in this call.
  The state bag is the only other thing the call returns besides its output.
\<close>

theorem forward_leaves_decoder_unchanged:
  assumes "forward seq enc_out enc_padding_mask state_bag rnd w = Some (y, state_bag', w')"
  shows "self w' = self w \<and> w' = w\<lparr>calls := calls w @ made w w'\<rparr> \<and>
    list_all (\<lambda>(i, sm, pm). pm = get_self_attn_padding_mask (self w) seq \<and>
        (sm = None \<or> sm \<in> set (map (self_attn_mask_gen (self w)) (mask_gen_calls (made w w')))))
      (layer_calls (made w w'))"
proof -
  from forward_effect [OF assms] obtain x where
    s: "self w' = self w" "calls w' = calls w @ made w w'" and
    g: "mask_gen_calls (made w w') = (if training (self w) \<or> state_bag = None then [x] else [])"
    and l: "layer_calls (made w w') =
         map (\<lambda>(i, l). (i, self_attn_mask_of (self w) state_bag x,
                        get_self_attn_padding_mask (self w) seq))
           (module_list_iter (layers (self w)) (training (self w)) (layer_drop_draws rnd))"
    by blast
  from s have "w' = w\<lparr>calls := calls w @ made w w'\<rparr>"
    by (cases w; cases w') simp
  with s(1) show ?thesis
    by (simp add: l g list_all_iff split_def self_attn_mask_of_def)
qed

theorem forward_leaves_decoder_unchanged_witness:
  "ex_run 3 True (Some 0) \<noteq> None \<and>
   self (ex_after 3 True (Some 0)) = self (ex_world 3 True) \<and>
   ex_after 3 True (Some 0) =
     (ex_world 3 True)\<lparr>calls := made (ex_world 3 True) (ex_after 3 True (Some 0))\<rparr> \<and>
   length (made (ex_world 3 True) (ex_after 3 True (Some 0))) = 6 \<and>
   list_all (\<lambda>(i, sm, pm). pm = get_self_attn_padding_mask (self (ex_world 3 True)) ex_seq)
     (layer_calls (made (ex_world 3 True) (ex_after 3 True (Some 0))))"
proof -
  obtain y s w' where r: "ex_run 3 True (Some 0) = Some (y, s, w')"
    using ex_run_Some by blast
  have a: "ex_after 3 True (Some 0) = w'"
    by (simp add: ex_after_def r)
  have c: "calls (ex_world 3 True) = []"
    by (simp add: ex_world_def)
  have n: "length (made (ex_world 3 True) (ex_after 3 True (Some 0))) = 6"
    by (simp add: ex_defs)
  from forward_leaves_decoder_unchanged [OF r [unfolded ex_run_def]] r n show ?thesis
    by (simp add: a c list_all_iff split_def)
qed

section \<open>Inference is deterministic\<close>

lemma same_result_bind:
  assumes "same_result d m1 m2"
    and "\<And>a w1 w2. self w1 = d \<Longrightarrow> self w2 = d \<Longrightarrow> same_result d (f (a, w1)) (g (a, w2))"
  shows "same_result d (m1 \<bind> f) (m2 \<bind> g)"
  using assms by (cases m1; cases m2) (auto simp: same_result_def)

lemma same_result_invoke:
  "self w1 = d \<Longrightarrow> self w2 = d \<Longrightarrow> same_result d (invoke c1 r w1) (invoke c2 r w2)"
  by (cases r) (simp_all add: same_result_def invoke_def)

lemma same_result_Some:
  "self w1 = d \<Longrightarrow> self w2 = d \<Longrightarrow> same_result d (Some (a, w1)) (Some (a, w2))"
  by (simp add: same_result_def)

lemma same_result_bind23:
  assumes "same_result d m1 m2"
    and "\<And>a w1 w2. self w1 = d \<Longrightarrow> self w2 = d \<Longrightarrow> same_result3 d (f (a, w1)) (g (a, w2))"
  shows "same_result3 d (m1 \<bind> f) (m2 \<bind> g)"
  using assms by (cases m1; cases m2) (auto simp: same_result_def same_result3_def)

lemma same_result_bind33:
  assumes "same_result3 d m1 m2"
    and "\<And>a s w1 w2. self w1 = d \<Longrightarrow> self w2 = d \<Longrightarrow>
           same_result3 d (f (a, s, w1)) (g (a, s, w2))"
  shows "same_result3 d (m1 \<bind> f) (m2 \<bind> g)"
  using assms by (cases m1; cases m2) (auto simp: same_result3_def)

lemma same_result3_Some:
  "self w1 = d \<Longrightarrow> self w2 = d \<Longrightarrow> same_result3 d (Some (a, s, w1)) (Some (a, s, w2))"
  by (simp add: same_result3_def)

lemma forward_embed_deterministic:
  assumes "self w1 = d" "self w2 = d" "\<not> training d"
  shows "same_result d (forward_embed seq sb u1 w1) (forward_embed seq sb u2 w2)"
  unfolding forward_embed_def Let_def
  apply (rule same_result_bind)
   apply (simp add: same_result_invoke assms)
  apply (simp only: prod.case)
  apply (rule same_result_bind)
   apply (simp add: same_result_invoke same_result_Some split: option.split)
  apply (simp only: prod.case)
  apply (rule same_result_bind)
   apply (simp add: same_result_invoke same_result_Some split: option.split)
  apply (simp only: prod.case)
  apply (rule same_result_bind)
   apply (simp add: same_result_invoke same_result_Some assms dropout_def)
  apply (simp add: same_result_Some)
  done

lemma layers_loop_deterministic:
  assumes "self w1 = d" "self w2 = d"
  shows "same_result3 d (layers_loop ls x m pm eo em sb w1) (layers_loop ls x m pm eo em sb w2)"
  using assms
proof (induction ls arbitrary: x sb w1 w2)
  case Nil
  then show ?case by (simp add: same_result3_def)
next
  case (Cons a ls)
  obtain i l where a: "a = (i, l)" by (cases a)
  show ?case
    unfolding a layers_loop.simps
    apply (rule same_result_bind23)
     apply (simp add: same_result_invoke Cons.prems)
    apply (simp add: split_def Cons.IH)
    done
qed

lemma forward_decoder_layers_deterministic:
  assumes "self w1 = d" "self w2 = d" "\<not> training d"
  shows "same_result3 d (forward_decoder_layers x pm eo em sb u1 w1)
           (forward_decoder_layers x pm eo em sb u2 w2)"
  unfolding forward_decoder_layers_def
  apply (rule same_result_bind23)
   apply (cases "self_attn_mask_gen d x")
    apply (simp_all add: assms same_result_def invoke_def)[2]
  apply (simp only: prod.case)
  apply (rule same_result_bind33)
   apply (simp add: module_list_iter_def assms layers_loop_deterministic)
  apply (simp only: prod.case)
  apply (rule same_result_bind23)
   apply (simp add: same_result_invoke same_result_Some split: option.split)
  apply (simp add: same_result3_Some)
  done

lemma forward_deterministic:
  assumes "self w1 = d" "self w2 = d" "\<not> training d"
  shows "same_result3 d (forward seq eo em sb rnd1 w1) (forward seq eo em sb rnd2 w2)"
  unfolding forward_def Let_def
  apply (rule same_result_bind23)
   apply (rule forward_embed_deterministic [OF assms])
  apply (simp only: prod.case)
  apply (rule same_result_bind23)
   apply (simp add: same_result_invoke same_result_Some split: option.split)
  apply (simp only: prod.case)
  apply (rule same_result_bind33)
   apply (simp add: assms forward_decoder_layers_deterministic)
  apply (simp only: prod.case)
  apply (rule same_result_bind23)
   apply (simp add: same_result_invoke same_result_Some split: option.split)
  apply (simp add: same_result3_Some)
  done

text \<open>
  Claim C8. When the module is not in training mode, a forward call does not depend on the
  random draws, whatever the layer-drop probability: two calls on the same input with the
  same state bag (or none), made in worlds that hold the same decoder, both fail or return
  the same output and the same bag; and a call that returns has called every layer of the
  stack, in order, none skipped.
\<close>

theorem inference_forward_is_deterministic:
  assumes "\<not> training (self w1)" and "self w2 = self w1"
  shows "map_option (\<lambda>(y, sb', w'). (y, sb')) (forward seq eo em sb rnd1 w1) =
         map_option (\<lambda>(y, sb', w'). (y, sb')) (forward seq eo em sb rnd2 w2) \<and>
    (\<forall>y sb' w'. forward seq eo em sb rnd1 w1 = Some (y, sb', w') \<longrightarrow>
       map fst (layer_calls (made w1 w')) = [0..<length (modules (layers (self w1)))])"
proof -
  have "same_result3 (self w1) (forward seq eo em sb rnd1 w1) (forward seq eo em sb rnd2 w2)"
    using assms by (intro forward_deterministic) simp_all
  then have 1: "map_option (\<lambda>(y, sb', w'). (y, sb')) (forward seq eo em sb rnd1 w1) =
         map_option (\<lambda>(y, sb', w'). (y, sb')) (forward seq eo em sb rnd2 w2)"
    by (cases "forward seq eo em sb rnd1 w1"; cases "forward seq eo em sb rnd2 w2")
       (auto simp: same_result3_def)
  have 2: "map fst (layer_calls (made w1 w')) = [0..<length (modules (layers (self w1)))]"
    if "forward seq eo em sb rnd1 w1 = Some (y, sb', w')" for y sb' w'
  proof -
    from forward_effect [OF that] assms(1) obtain x where
      "layer_calls (made w1 w') =
         map (\<lambda>(i, l). (i, self_attn_mask_of (self w1) sb x,
                        get_self_attn_padding_mask (self w1) seq))
           (enumerate 0 (modules (layers (self w1))))"
      by (auto simp: module_list_iter_def)
    then show ?thesis
      by (simp add: split_def comp_def map_fst_enumerate)
  qed
  from 1 2 show ?thesis by blast
qed

theorem inference_forward_is_deterministic_witness:
  "\<not> training (self (ex_world 2 False)) \<and>
   self (ex_after 2 False (Some 0)) = self (ex_world 2 False) \<and>
   drop_p (layers (self (ex_world 2 False))) = 1 / 2 \<and>
   map_option (\<lambda>(y, sb', w'). (y, sb')) (forward ex_seq None None (Some 0) ex_rnd (ex_world 2 False)) =
   map_option (\<lambda>(y, sb', w'). (y, sb'))
     (forward ex_seq None None (Some 0) \<lparr>dropout_draws = (\<lambda>i. 0), layer_drop_draws = (\<lambda>i. 0)\<rparr>
        (ex_after 2 False (Some 0))) \<and>
   ex_run 2 False (Some 0) \<noteq> None \<and>
   map fst (layer_calls (made (ex_world 2 False) (ex_after 2 False (Some 0)))) = [0, 1] \<and>
   map fst (layer_calls (made (ex_world 2 True) (ex_after 2 True (Some 0)))) = [1]"
proof -
  obtain y s w' where r: "ex_run 2 False (Some 0) = Some (y, s, w')"
    using ex_run_Some by blast
  have a: "ex_after 2 False (Some 0) = w'"
    by (simp add: ex_after_def r)
  have t: "\<not> training (self (ex_world 2 False))"
    "drop_p (layers (self (ex_world 2 False))) = 1 / 2"
    "length (modules (layers (self (ex_world 2 False)))) = 2"
    by (simp_all add: ex_world_def ex_decoder_def ex_init_eq)
  have s: "self w' = self (ex_world 2 False)"
    using forward_effect [OF r [unfolded ex_run_def]] by simp
  have tr: "map fst (layer_calls (made (ex_world 2 True) (ex_after 2 True (Some 0)))) = [1]"
    by (simp add: ex_defs)
  have u: "[0..<2] = [0, Suc 0]"
    by (simp add: upt_rec)
  from inference_forward_is_deterministic [OF t(1) s, of ex_seq None None "Some 0" ex_rnd
      "\<lparr>dropout_draws = (\<lambda>i. 0), layer_drop_draws = (\<lambda>i. 0)\<rparr>"] r t s tr
  show ?thesis
    by (simp add: a ex_run_def u)
qed

section \<open>The embedding scale\<close>

text \<open>
  Claim C6. A constructed decoder has \<open>embed_scale = 1\<close> when \<open>no_scale_embed\<close> is set and the
  square root of the embedding width otherwise. In every forward call that returns, in
  training mode or not, the looked-up embedding \<open>e0\<close> is multiplied element by element by
  \<open>embed_scale\<close>, giving \<open>s\<close> (which is \<open>e0\<close> itself when \<open>no_scale_embed\<close> is set); the positional
  encoder, when there is one, is called once, on \<open>s\<close> and the state bag; the normaliser, when
  there is one, is applied to the result \<open>e1\<close> of that (to \<open>s\<close> without a positional encoder), and
  the dropout, when its probability is positive, to the result \<open>e2\<close> of that; nothing else is
  applied inside the embedding stage, whose result \<open>e\<close> is what the first step after the stage
  receives. So the factor enters once, before the positional encoder.
\<close>

theorem embed_scaled_once_before_positional_encoder:
  assumes "init xavier emb pos ls nse ne dp mg ldp no neps kw = Inr d"
  shows "embed_scale d = (if nse then 1 else sqrt (real (embedding_dim emb))) \<and>
    (\<forall>seq eo em sb rnd tr cs y sb' w'.
       forward seq eo em sb rnd \<lparr>self = d\<lparr>training := tr\<rparr>, calls = cs\<rparr> = Some (y, sb', w') \<longrightarrow>
       (\<exists>e0 s e1 e2 e w0.
          embed_forward emb seq = Some e0 \<and>
          s = Tensor (dtype e0) (shape e0) (map (\<lambda>v. v * embed_scale d) (elems e0)) \<and>
          (nse \<longrightarrow> s = e0) \<and>
          pos_embed_calls (made \<lparr>self = d\<lparr>training := tr\<rparr>, calls = cs\<rparr> w') =
            (case pos of None \<Rightarrow> [] | Some p \<Rightarrow> [(s, sb)]) \<and>
          (case pos of None \<Rightarrow> e1 = s | Some p \<Rightarrow> pos_forward p s sb = Some e1) \<and>
          (if ne then LayerNorm_forward (new_LayerNorm (embedding_dim emb) neps kw) e1 = Some e2
           else e2 = e1) \<and>
          e = (if dp > 0 then dropout e2 dp tr (dropout_draws rnd) else e2) \<and>
          forward_embed seq sb (dropout_draws rnd) \<lparr>self = d\<lparr>training := tr\<rparr>, calls = cs\<rparr> =
            Some (e, w0) \<and>
          embed_stage_inputs (made \<lparr>self = d\<lparr>training := tr\<rparr>, calls = cs\<rparr> w') =
            (case pos of None \<Rightarrow> [] | Some p \<Rightarrow> [s]) @ (if ne then [e1] else [])
              @ (if dp > 0 then [e2] else []) \<and>
          (\<exists>r. stack_inputs (made \<lparr>self = d\<lparr>training := tr\<rparr>, calls = cs\<rparr> w') = e # r)))"
proof (intro conjI allI impI)
  from init_Inr [OF assms] have
    i: "embed d = emb" "embed_scale d = (if nse then 1 else sqrt (real (embedding_dim emb)))"
       "pos_embed d = pos"
       "embed_norm d = (if ne then Some (new_LayerNorm (embedding_dim emb) neps kw) else None)"
       "embed_dropout_p d = dp" "modules (layers d) \<noteq> []"
    by (auto simp: ModuleList_def)
  show "embed_scale d = (if nse then 1 else sqrt (real (embedding_dim emb)))"
    by (rule i(2))
  fix seq eo em sb rnd tr cs y sb' w'
  define W where "W = \<lparr>self = d\<lparr>training := tr\<rparr>, calls = cs\<rparr>"
  assume "forward seq eo em sb rnd \<lparr>self = d\<lparr>training := tr\<rparr>, calls = cs\<rparr> = Some (y, sb', w')"
  then have r: "forward seq eo em sb rnd W = Some (y, sb', w')"
    by (simp add: W_def)
  have sw: "embed (self W) = emb" "embed_scale (self W) = embed_scale d"
    "pos_embed (self W) = pos"
    "embed_norm (self W) = (if ne then Some (new_LayerNorm (embedding_dim emb) neps kw) else None)"
    "embed_dropout_p (self W) = dp" "training (self W) = tr"
    "modules (layers (self W)) \<noteq> []"
    by (simp_all add: W_def i)
  from forward_inputs [OF r] sw(7) obtain e0 e1 e2 e w0 r0 where
    f: "embed_forward (embed (self W)) seq = Some e0"
       "(case pos_embed (self W) of
          None \<Rightarrow> e1 = tensor_mul e0 (embed_scale (self W))
        | Some p \<Rightarrow> pos_forward p (tensor_mul e0 (embed_scale (self W))) sb = Some e1)"
       "(case embed_norm (self W) of None \<Rightarrow> e2 = e1 | Some n \<Rightarrow> LayerNorm_forward n e1 = Some e2)"
       "e = (if embed_dropout_p (self W) > 0
          then dropout e2 (embed_dropout_p (self W)) (training (self W)) (dropout_draws rnd)
          else e2)"
       "forward_embed seq sb (dropout_draws rnd) W = Some (e, w0)"
       "pos_embed_calls (made W w') =
         (case pos_embed (self W) of None \<Rightarrow> []
          | Some p \<Rightarrow> [(tensor_mul e0 (embed_scale (self W)), sb)])"
       "embed_stage_inputs (made W w') =
         (case pos_embed (self W) of None \<Rightarrow> []
          | Some p \<Rightarrow> [tensor_mul e0 (embed_scale (self W))])
         @ (case embed_norm (self W) of None \<Rightarrow> [] | Some n \<Rightarrow> [e1])
         @ (if embed_dropout_p (self W) > 0 then [e2] else [])"
       "stack_inputs (made W w') = e # r0"
    by blast
  define s where "s = Tensor (dtype e0) (shape e0) (map (\<lambda>v. v * embed_scale d) (elems e0))"
  have s: "tensor_mul e0 (embed_scale d) = s"
    by (simp add: s_def tensor_mul_def)
  have n: "nse \<longrightarrow> s = e0"
    using tensor_mul_one [of e0] by (auto simp: s [symmetric] i(2))
  have en: "(if ne then LayerNorm_forward (new_LayerNorm (embedding_dim emb) neps kw) e1 = Some e2
           else e2 = e1)"
    using f(3) unfolding sw by (cases ne) simp_all
  have es: "embed_stage_inputs (made W w') =
            (case pos of None \<Rightarrow> [] | Some p \<Rightarrow> [s]) @ (if ne then [e1] else [])
              @ (if dp > 0 then [e2] else [])"
    using f(7) unfolding sw s by (cases ne) simp_all
  show "\<exists>e0 s e1 e2 e w0.
          embed_forward emb seq = Some e0 \<and>
          s = Tensor (dtype e0) (shape e0) (map (\<lambda>v. v * embed_scale d) (elems e0)) \<and>
          (nse \<longrightarrow> s = e0) \<and>
          pos_embed_calls (made \<lparr>self = d\<lparr>training := tr\<rparr>, calls = cs\<rparr> w') =
            (case pos of None \<Rightarrow> [] | Some p \<Rightarrow> [(s, sb)]) \<and>
          (case pos of None \<Rightarrow> e1 = s | Some p \<Rightarrow> pos_forward p s sb = Some e1) \<and>
          (if ne then LayerNorm_forward (new_LayerNorm (embedding_dim emb) neps kw) e1 = Some e2
           else e2 = e1) \<and>
          e = (if dp > 0 then dropout e2 dp tr (dropout_draws rnd) else e2) \<and>
          forward_embed seq sb (dropout_draws rnd) \<lparr>self = d\<lparr>training := tr\<rparr>, calls = cs\<rparr> =
            Some (e, w0) \<and>
          embed_stage_inputs (made \<lparr>self = d\<lparr>training := tr\<rparr>, calls = cs\<rparr> w') =
            (case pos of None \<Rightarrow> [] | Some p \<Rightarrow> [s]) @ (if ne then [e1] else [])
              @ (if dp > 0 then [e2] else []) \<and>
          (\<exists>r. stack_inputs (made \<lparr>self = d\<lparr>training := tr\<rparr>, calls = cs\<rparr> w') = e # r)"
    unfolding W_def [symmetric]
    apply (rule exI [of _ e0], rule exI [of _ s], rule exI [of _ e1], rule exI [of _ e2],
        rule exI [of _ e], rule exI [of _ w0])
    using f(1) f(2) f(4) f(5) f(6) f(8) n en es unfolding sw s
    by (simp add: s_def)
qed

theorem embed_scaled_once_before_positional_encoder_witness:
  "ex_init4 False = Inr (projr (ex_init4 False)) \<and>
   ex_run4 False \<noteq> None \<and>
   embed_scale (projr (ex_init4 False)) = 2 \<and>
   embed_forward ex_embed4 ex_seq4 =
     Some (Tensor (Floating Float32) [2, 4] [1, 2, 3, 4, 0, 0, 0, 0]) \<and>
   pos_embed_calls (made (ex_world4 False) (ex_after4 False)) =
     [(Tensor (Floating Float32) [2, 4] [2, 4, 6, 8, 0, 0, 0, 0], Some 1)] \<and>
   map_option fst (forward_embed ex_seq4 (Some 1) (dropout_draws ex_rnd) (ex_world4 False)) =
     Some (Tensor (Floating Float32) [2, 4] [3, 5, 7, 9, 1, 1, 1, 1]) \<and>
   embed_stage_inputs (made (ex_world4 False) (ex_after4 False)) =
     [Tensor (Floating Float32) [2, 4] [2, 4, 6, 8, 0, 0, 0, 0]] \<and>
   hd (stack_inputs (made (ex_world4 False) (ex_after4 False))) =
     Tensor (Floating Float32) [2, 4] [3, 5, 7, 9, 1, 1, 1, 1] \<and>
   ex_init4 True = Inr (projr (ex_init4 True)) \<and>
   ex_run4 True \<noteq> None \<and>
   embed_scale (projr (ex_init4 True)) = 1 \<and>
   pos_embed_calls (made (ex_world4 True) (ex_after4 True)) =
     [(Tensor (Floating Float32) [2, 4] [1, 2, 3, 4, 0, 0, 0, 0], Some 1)] \<and>
   hd (stack_inputs (made (ex_world4 True) (ex_after4 True))) =
     Tensor (Floating Float32) [2, 4] [2, 3, 4, 5, 1, 1, 1, 1]"
proof -
  have i: "ex_init4 nse = Inr (projr (ex_init4 nse))" for nse
    by (simp add: ex_init4_eq)
  have e0: "embed_forward ex_embed4 ex_seq4 =
     Some (Tensor (Floating Float32) [2, 4] [1, 2, 3, 4, 0, 0, 0, 0])"
    by (simp add: ex_embed4_def table_embedding_def ex_seq4_def)
  have c: "embedding_dim ex_embed4 = 4"
    by (simp add: ex_embed4_def table_embedding_def)
  have t: "embed_scale (projr (ex_init4 nse)) = (if nse then 1 else 2) \<and>
     pos_embed_calls (made (ex_world4 nse) (ex_after4 nse)) =
       [(Tensor (Floating Float32) [2, 4]
           (map (\<lambda>v. v * (if nse then 1 else 2)) [1, 2, 3, 4, 0, 0, 0, 0]), Some 1)] \<and>
     map_option fst (forward_embed ex_seq4 (Some 1) (dropout_draws ex_rnd) (ex_world4 nse)) =
       Some (Tensor (Floating Float32) [2, 4]
           (map (\<lambda>v. v * (if nse then 1 else 2) + 1) [1, 2, 3, 4, 0, 0, 0, 0])) \<and>
     embed_stage_inputs (made (ex_world4 nse) (ex_after4 nse)) =
       [Tensor (Floating Float32) [2, 4]
           (map (\<lambda>v. v * (if nse then 1 else 2)) [1, 2, 3, 4, 0, 0, 0, 0])] \<and>
     hd (stack_inputs (made (ex_world4 nse) (ex_after4 nse))) =
       Tensor (Floating Float32) [2, 4]
           (map (\<lambda>v. v * (if nse then 1 else 2) + 1) [1, 2, 3, 4, 0, 0, 0, 0])" for nse
  proof -
    obtain y s w' where r: "ex_run4 nse = Some (y, s, w')"
      using ex_run4_Some by blast
    have a: "ex_after4 nse = w'"
      by (simp add: ex_after4_def r)
    note th = embed_scaled_once_before_positional_encoder [OF ex_init4_Inr [of nse]]
    from th have sc: "embed_scale (projr (ex_init4 nse)) = (if nse then 1 else 2)"
      by (simp add: c)
    from th [THEN conjunct2, rule_format, OF r [unfolded ex_run4_def ex_world4_def]]
    obtain e0' s1 e1 e2 e w0 r0 where
      f: "embed_forward ex_embed4 ex_seq4 = Some e0'"
         "s1 = Tensor (dtype e0') (shape e0')
                (map (\<lambda>v. v * embed_scale (projr (ex_init4 nse))) (elems e0'))"
         "pos_embed_calls (made (ex_world4 nse) w') = [(s1, Some 1)]"
         "pos_forward (ex_pos 4) s1 (Some 1) = Some e1"
         "e2 = e1" "e = e2"
         "forward_embed ex_seq4 (Some 1) (dropout_draws ex_rnd) (ex_world4 nse) = Some (e, w0)"
         "embed_stage_inputs (made (ex_world4 nse) w') = [s1]"
         "stack_inputs (made (ex_world4 nse) w') = e # r0"
      unfolding ex_world4_def [symmetric] by auto
    from f(1) e0 have e0': "e0' = Tensor (Floating Float32) [2, 4] [1, 2, 3, 4, 0, 0, 0, 0]"
      by simp
    have s1: "s1 = Tensor (Floating Float32) [2, 4]
           (map (\<lambda>v. v * (if nse then 1 else 2)) [1, 2, 3, 4, 0, 0, 0, 0])"
      unfolding f(2) e0' sc by simp
    have e1: "e1 = Tensor (Floating Float32) [2, 4]
           (map (\<lambda>v. v * (if nse then 1 else 2) + 1) [1, 2, 3, 4, 0, 0, 0, 0])"
      using f(4) unfolding s1 by (simp add: ex_pos_def)
    show ?thesis
      unfolding a using sc f(3) f(7) f(8) f(9) unfolding f(5) f(6) e1 s1
      by simp
  qed
  have r: "ex_run4 nse \<noteq> None" for nse
    using ex_run4_Some [of nse] by auto
  from t [of False] t [of True] i [of False] i [of True] r [of False] r [of True] e0
  show ?thesis
    by simp
qed

section \<open>Validation at construction\<close>

lemma check_layers_None:
  "check_layers md k ls = None \<longleftrightarrow> (\<forall>l \<in> set ls. layer_model_dim l = md)"
  by (induction ls arbitrary: k) auto

lemma check_layers_first_mismatch:
  assumes "i < length ls" "layer_model_dim (ls ! i) \<noteq> md"
    and "\<forall>j < i. layer_model_dim (ls ! j) = md"
  shows "check_layers md k ls = Some (Layer_model_dim_mismatch (k + i) (layer_model_dim (ls ! i)) md)"
  using assms
proof (induction ls arbitrary: k i)
  case Nil
  then show ?case by simp
next
  case (Cons l ls)
  show ?case
  proof (cases i)
    case 0
    with Cons.prems show ?thesis by simp
  next
    case (Suc i')
    with Cons.prems have "layer_model_dim l = md" by auto
    moreover from Cons.prems Suc have "i' < length ls" "layer_model_dim (ls ! i') \<noteq> md"
      "\<forall>j < i'. layer_model_dim (ls ! j) = md"
      by auto
    ultimately show ?thesis
      using Cons.IH [of i' "Suc k"] Suc by simp
  qed
qed

text \<open>
  Given the layers as a list (any iterable that can be iterated again), the constructor
  fails exactly when the list is empty, or some layer's width differs from the first
  layer's, or the positional embedding's width differs from the embedding's; the empty list
  raises the no-layers error, and a width mismatch raises the error that names the index of
  the first offending layer with its width and the expected one.
\<close>

theorem init_validates_a_sequence_of_layers:
  "(isl (init xavier emb pos (Sequence ls) nse ne dp mg ldp no neps kw) \<longleftrightarrow>
      ls = [] \<or> (\<exists>l \<in> set ls. layer_model_dim l \<noteq> layer_model_dim (hd ls)) \<or>
      (\<exists>p. pos = Some p \<and> pos_embedding_dim p \<noteq> embedding_dim emb)) \<and>
   (ls = [] \<longrightarrow> init xavier emb pos (Sequence ls) nse ne dp mg ldp no neps kw = Inl No_layers) \<and>
   (\<forall>i < length ls. layer_model_dim (ls ! i) \<noteq> layer_model_dim (hd ls) \<longrightarrow>
      (\<forall>j < i. layer_model_dim (ls ! j) = layer_model_dim (hd ls)) \<longrightarrow>
      init xavier emb pos (Sequence ls) nse ne dp mg ldp no neps kw =
        Inl (Layer_model_dim_mismatch i (layer_model_dim (ls ! i)) (layer_model_dim (hd ls))))"
proof -
  have e: "init xavier emb pos (Sequence []) nse ne dp mg ldp no neps kw = Inl No_layers"
    by (simp add: init_def ModuleList_def)
  have m: "init xavier emb pos (Sequence ls) nse ne dp mg ldp no neps kw =
        Inl (Layer_model_dim_mismatch i (layer_model_dim (ls ! i)) (layer_model_dim (hd ls)))"
    if "i < length ls" "layer_model_dim (ls ! i) \<noteq> layer_model_dim (hd ls)"
      "\<forall>j < i. layer_model_dim (ls ! j) = layer_model_dim (hd ls)" for i
  proof -
    from that(1) have "ls \<noteq> []" by auto
    with check_layers_first_mismatch [OF that, of 0] show ?thesis
      by (simp add: init_def ModuleList_def)
  qed
  have l: "isl (init xavier emb pos (Sequence ls) nse ne dp mg ldp no neps kw) \<longleftrightarrow>
      ls = [] \<or> (\<exists>l \<in> set ls. layer_model_dim l \<noteq> layer_model_dim (hd ls)) \<or>
      (\<exists>p. pos = Some p \<and> pos_embedding_dim p \<noteq> embedding_dim emb)"
  proof (cases "ls = []")
    case True
    with e show ?thesis by simp
  next
    case ne: False
    show ?thesis
    proof (cases "check_layers (layer_model_dim (hd ls)) 0 ls")
      case (Some a)
      then have "\<exists>l \<in> set ls. layer_model_dim l \<noteq> layer_model_dim (hd ls)"
        using check_layers_None [of "layer_model_dim (hd ls)" 0 ls] by auto
      moreover from ne Some have "isl (init xavier emb pos (Sequence ls) nse ne dp mg ldp no neps kw)"
        by (simp add: init_def ModuleList_def)
      ultimately show ?thesis by blast
    next
      case None
      then have a: "\<not> (\<exists>l \<in> set ls. layer_model_dim l \<noteq> layer_model_dim (hd ls))"
        using check_layers_None [of "layer_model_dim (hd ls)" 0 ls] by auto
      show ?thesis
      proof (cases pos)
        case pn: None
        with ne None have "\<not> isl (init xavier emb pos (Sequence ls) nse ne dp mg ldp no neps kw)"
          by (simp add: init_def ModuleList_def Let_def)
        with a ne pn show ?thesis by blast
      next
        case (Some p)
        with ne None have "isl (init xavier emb pos (Sequence ls) nse ne dp mg ldp no neps kw) \<longleftrightarrow>
            pos_embedding_dim p \<noteq> embedding_dim emb"
          by (simp add: init_def ModuleList_def Let_def)
        with a ne Some show ?thesis by blast
      qed
    qed
  qed
  show ?thesis
  proof (intro conjI)
    show "isl (init xavier emb pos (Sequence ls) nse ne dp mg ldp no neps kw) \<longleftrightarrow>
      ls = [] \<or> (\<exists>l \<in> set ls. layer_model_dim l \<noteq> layer_model_dim (hd ls)) \<or>
      (\<exists>p. pos = Some p \<and> pos_embedding_dim p \<noteq> embedding_dim emb)"
      by (rule l)
    show "ls = [] \<longrightarrow> init xavier emb pos (Sequence ls) nse ne dp mg ldp no neps kw = Inl No_layers"
      using e by simp
    show "\<forall>i < length ls. layer_model_dim (ls ! i) \<noteq> layer_model_dim (hd ls) \<longrightarrow>
      (\<forall>j < i. layer_model_dim (ls ! j) = layer_model_dim (hd ls)) \<longrightarrow>
      init xavier emb pos (Sequence ls) nse ne dp mg ldp no neps kw =
        Inl (Layer_model_dim_mismatch i (layer_model_dim (ls ! i)) (layer_model_dim (hd ls)))"
      using m by (intro allI impI)
  qed
qed

theorem init_validates_a_sequence_of_layers_witness:
  "isl (init ex_xavier ex_embed None (Sequence [ex_layer 2, ex_layer 2, ex_layer 3]) True False 0
      None 0 POST (1 / 100000) ex_kw) \<and>
   init ex_xavier ex_embed None (Sequence [ex_layer 2, ex_layer 2, ex_layer 3]) True False 0
      None 0 POST (1 / 100000) ex_kw = Inl (Layer_model_dim_mismatch 2 3 2) \<and>
   init ex_xavier ex_embed None (Sequence ([] :: nat decoder_layer list)) True False 0
      None 0 POST (1 / 100000) ex_kw = Inl No_layers \<and>
   isl (init ex_xavier ex_embed (Some (ex_pos 5)) (Sequence [ex_layer 2]) True False 0
      None 0 POST (1 / 100000) ex_kw) \<and>
   \<not> isl (init ex_xavier ex_embed (Some (ex_pos 2)) (Sequence [ex_layer 2]) True False 0
      None 0 POST (1 / 100000) ex_kw)"
proof -
  note t = init_validates_a_sequence_of_layers
  have 1: "init ex_xavier ex_embed None (Sequence [ex_layer 2, ex_layer 2, ex_layer 3]) True False 0
      None 0 POST (1 / 100000) ex_kw = Inl (Layer_model_dim_mismatch 2 3 2)"
    using t [of ex_xavier ex_embed None "[ex_layer 2, ex_layer 2, ex_layer 3]" True False 0 None 0
        POST "1 / 100000" ex_kw, THEN conjunct2, THEN conjunct2, THEN spec, of 2]
    by (simp add: ex_layer_def less_2_cases_iff)
  have 2: "init ex_xavier ex_embed None (Sequence ([] :: nat decoder_layer list)) True False 0
      None 0 POST (1 / 100000) ex_kw = Inl No_layers"
    using t [of ex_xavier ex_embed None "[] :: nat decoder_layer list" True False 0 None 0
        POST "1 / 100000" ex_kw]
    by simp
  have 3: "isl (init ex_xavier ex_embed (Some (ex_pos 5)) (Sequence [ex_layer 2]) True False 0
      None 0 POST (1 / 100000) ex_kw)"
    using t [of ex_xavier ex_embed "Some (ex_pos 5)" "[ex_layer 2]" True False 0 None 0
        POST "1 / 100000" ex_kw]
    by (simp add: ex_pos_def ex_embed_def table_embedding_def)
  have 4: "\<not> isl (init ex_xavier ex_embed (Some (ex_pos 2)) (Sequence [ex_layer 2]) True False 0
      None 0 POST (1 / 100000) ex_kw)"
    using t [of ex_xavier ex_embed "Some (ex_pos 2)" "[ex_layer 2]" True False 0 None 0
        POST "1 / 100000" ex_kw]
    by (simp add: ex_pos_def ex_embed_def table_embedding_def)
  from 1 2 3 4 show ?thesis by simp
qed

text \<open>
  Claim C2 (where the constructor departs from it). Given the layers of widths 2 and 3 as a
  list, the constructor raises the width error naming index 1. Given the same layers as an
  iterator, it raises nothing: the iterator is used up building the layer list, the width
  check loops over nothing, and a decoder with layers of widths 2 and 3 is returned.
\<close>

theorem init_skips_width_check_for_iterator:
  "init ex_xavier ex_embed None (Sequence [ex_layer 2, ex_layer 3]) True False 0 None 0 POST
      (1 / 100000) ex_kw = Inl (Layer_model_dim_mismatch 1 3 2) \<and>
   \<not> isl (init ex_xavier ex_embed None (Iterator [ex_layer 2, ex_layer 3]) True False 0 None 0 POST
      (1 / 100000) ex_kw) \<and>
   map layer_model_dim
     (modules (layers (projr (init ex_xavier ex_embed None (Iterator [ex_layer 2, ex_layer 3])
        True False 0 None 0 POST (1 / 100000) ex_kw)))) = [2, 3]"
  by (simp add: init_def ModuleList_def ex_layer_def ex_embed_def table_embedding_def
      upt_rec)

section \<open>The shape of the output\<close>

lemma preserves_shapeD:
  "preserves_shape l \<Longrightarrow> layer_forward l x m pm eo em s = Some (y, s') \<Longrightarrow> shape y = shape x"
  unfolding preserves_shape_def by blast

lemma shape_tensor_mul [simp]: "shape (tensor_mul t c) = shape t"
  by (simp add: tensor_mul_def)

lemma shape_dropout [simp]: "shape (dropout x p tr u) = shape x"
  by (simp add: dropout_def)

lemma LayerNorm_forward_shape: "LayerNorm_forward n x = Some y \<Longrightarrow> shape y = shape x"
  by (auto simp: LayerNorm_forward_def split: if_splits)

lemma proj_forward_shape:
  "proj_forward p x = Some y \<Longrightarrow> shape y = butlast (shape x) @ [out_dim p]"
  by (auto simp: proj_forward_def split: if_splits)

lemma forward_embed_values:
  assumes "forward_embed seq sb u w = Some (e, w')"
  shows "\<exists>e0 e1 e2. embed_forward (embed (self w)) seq = Some e0 \<and>
     (case pos_embed (self w) of
        None \<Rightarrow> e1 = tensor_mul e0 (embed_scale (self w))
      | Some p \<Rightarrow> pos_forward p (tensor_mul e0 (embed_scale (self w))) sb = Some e1) \<and>
     (case embed_norm (self w) of None \<Rightarrow> e2 = e1 | Some n \<Rightarrow> LayerNorm_forward n e1 = Some e2) \<and>
     e = (if embed_dropout_p (self w) > 0
          then dropout e2 (embed_dropout_p (self w)) (training (self w)) u else e2)"
  using assms
  by (cases "pos_embed (self w)"; cases "embed_norm (self w)";
      cases "embed_dropout_p (self w) > 0"; cases "embed_scale (self w) = 1";
      auto simp: forward_embed_def Option.bind_eq_Some_conv Let_def)

lemma forward_embed_shape:
  assumes "forward_embed seq sb u w = Some (e, w')"
    and "embeds_to_width (embed (self w))"
    and "\<forall>p. pos_embed (self w) = Some p \<longrightarrow> pos_preserves_shape p"
  shows "shape e = shape seq @ [embedding_dim (embed (self w))]"
proof -
  from forward_embed_values [OF assms(1)] obtain e0 e1 e2 where
    e0: "embed_forward (embed (self w)) seq = Some e0" and
    e1: "case pos_embed (self w) of
           None \<Rightarrow> e1 = tensor_mul e0 (embed_scale (self w))
         | Some p \<Rightarrow> pos_forward p (tensor_mul e0 (embed_scale (self w))) sb = Some e1" and
    e2: "case embed_norm (self w) of None \<Rightarrow> e2 = e1 | Some n \<Rightarrow> LayerNorm_forward n e1 = Some e2" and
    e: "e = (if embed_dropout_p (self w) > 0
          then dropout e2 (embed_dropout_p (self w)) (training (self w)) u else e2)"
    by blast
  from e0 assms(2) have "shape e0 = shape seq @ [embedding_dim (embed (self w))]"
    by (simp add: embeds_to_width_def)
  moreover from e1 assms(3) have "shape e1 = shape e0"
    by (cases "pos_embed (self w)") (auto simp: pos_preserves_shape_def)
  moreover from e2 have "shape e2 = shape e1"
    by (cases "embed_norm (self w)") (auto dest: LayerNorm_forward_shape)
  moreover from e have "shape e = shape e2"
    by simp
  ultimately show ?thesis by simp
qed

lemma layers_loop_shape:
  assumes "layers_loop ls x m pm eo em sb w = Some (y, sb', w')"
    and "\<forall>(i, l) \<in> set ls. preserves_shape l"
  shows "shape y = shape x"
  using assms
proof (induction ls arbitrary: x sb w)
  case Nil
  then show ?case by simp
next
  case (Cons a ls)
  obtain i l where a: "a = (i, l)" by (cases a)
  from Cons.prems(1) obtain x1 sb1 w1 where
    step: "layer_forward l x m pm eo em sb = Some (x1, sb1)"
    and rest: "layers_loop ls x1 m pm eo em sb1 w1 = Some (y, sb', w')"
    by (auto simp: a Option.bind_eq_Some_conv)
  from Cons.prems(2) step have "shape x1 = shape x"
    by (auto simp: a dest: preserves_shapeD)
  moreover from Cons.IH [OF rest] Cons.prems(2) have "shape y = shape x1"
    by auto
  ultimately show ?case by simp
qed

lemma set_module_list_iter:
  "(i, l) \<in> set (module_list_iter ml tr u) \<Longrightarrow> l \<in> set (modules ml)"
  by (auto simp: module_list_iter_def in_set_enumerate_eq split: if_splits)

lemma forward_decoder_layers_shape:
  assumes "forward_decoder_layers x pm eo em sb u w = Some (y, sb', w')"
    and "\<forall>l \<in> set (modules (layers (self w))). preserves_shape l"
  shows "shape y = shape x"
proof -
  from assms(1) obtain m w1 x1 w2 where
    loop: "layers_loop (module_list_iter (layers (self w1)) (training (self w1)) u) x m pm eo em
             sb w1 = Some (x1, sb', w2)"
    and w1: "self w1 = self w"
    and fin: "(case layer_norm (self w2) of
                 Some n \<Rightarrow> invoke (Call_layer_norm x1) (LayerNorm_forward n x1) w2
               | None \<Rightarrow> Some (x1, w2)) = Some (y, w')"
    by (cases "training (self w) \<or> sb = None")
       (auto simp: forward_decoder_layers_def Option.bind_eq_Some_conv)
  have "shape x1 = shape x"
    using layers_loop_shape [OF loop] assms(2) w1
    by (auto dest: set_module_list_iter)
  moreover from fin have "shape y = shape x1"
    by (cases "layer_norm (self w2)") (auto dest: LayerNorm_forward_shape)
  ultimately show ?thesis by simp
qed

lemma ex_contracts:
  "embeds_to_width ex_embed" "pos_preserves_shape (ex_pos n)" "preserves_shape (ex_layer n)"
  by (auto simp: embeds_to_width_def pos_preserves_shape_def preserves_shape_def ex_embed_def
      table_embedding_def ex_pos_def ex_layer_def split: if_splits)

text \<open>
  The width a forward pass returns. For a constructed decoder, in training mode or not, whose
  embedding appends its width to the shape of the sequence and whose positional embedding
  and layers each return a tensor of the shape they were given, every forward call that
  returns returns a tensor with the leading dimensions of the input sequence and a trailing
  width equal to the embedding width; that is the model width when the two widths are equal.
\<close>

theorem forward_output_width_is_embedding_dim:
  assumes "init xavier emb pos ls nse ne dp mg ldp no neps kw = Inr d"
    and "forward seq eo em sb rnd \<lparr>self = d\<lparr>training := tr\<rparr>, calls = cs\<rparr> = Some (y, sb', w')"
    and "embeds_to_width emb"
    and "\<forall>p. pos = Some p \<longrightarrow> pos_preserves_shape p"
    and "\<forall>l \<in> set (fst (iterate ls)). preserves_shape l"
  shows "shape y = shape seq @ [embedding_dim emb] \<and>
         (embedding_dim emb = model_dim d \<longrightarrow> shape y = shape seq @ [model_dim d])"
proof -
  define w where "w = \<lparr>self = d\<lparr>training := tr\<rparr>, calls = cs\<rparr>"
  from init_Inr [OF assms(1)] have
    i: "embed (self w) = emb" "pos_embed (self w) = pos"
       "modules (layers (self w)) = fst (iterate ls)"
       "inp_dim_proj (self w) =
          (if embedding_dim emb \<noteq> model_dim d
           then Some (InternalDimProjection xavier (embedding_dim emb) (model_dim d) kw) else None)"
       "out_dim_proj (self w) =
          (if embedding_dim emb \<noteq> model_dim d
           then Some (InternalDimProjection xavier (model_dim d) (embedding_dim emb) kw) else None)"
    by (auto simp: w_def ModuleList_def)
  from assms(2) obtain a0 w0 a1 w1 a2 w2 where
    s0: "forward_embed seq sb (dropout_draws rnd) w = Some (a0, w0)" and
    s1: "(case inp_dim_proj (self w0) of
            Some p \<Rightarrow> invoke (Call_inp_dim_proj a0) (proj_forward p a0) w0
          | None \<Rightarrow> Some (a0, w0)) = Some (a1, w1)" and
    s2: "forward_decoder_layers a1 (get_self_attn_padding_mask (self w) seq) eo em sb
           (layer_drop_draws rnd) w1 = Some (a2, sb', w2)" and
    s3: "(case out_dim_proj (self w2) of
            Some p \<Rightarrow> invoke (Call_out_dim_proj a2) (proj_forward p a2) w2
          | None \<Rightarrow> Some (a2, w2)) = Some (y, w')"
    unfolding w_def [symmetric]
    by (auto simp: forward_def Option.bind_eq_Some_conv Let_def)
  have sw: "self w0 = self w" "self w1 = self w" "self w2 = self w"
  proof -
    show 0: "self w0 = self w"
      using forward_embed_effect [OF s0] by simp
    show 1: "self w1 = self w"
      using s1 0 by (cases "inp_dim_proj (self w0)") auto
    show "self w2 = self w"
      using forward_decoder_layers_effect [OF s2] 1 by simp
  qed
  have h0: "shape a0 = shape seq @ [embedding_dim emb]"
    using forward_embed_shape [OF s0] assms(3,4) i(1,2) by simp
  have h2: "shape a2 = shape a1"
    using forward_decoder_layers_shape [OF s2] assms(5) i(3) sw by simp
  show ?thesis
  proof (cases "embedding_dim emb = model_dim d")
    case True
    with s1 s3 sw i have "a1 = a0" "y = a2" by auto
    with h0 h2 True show ?thesis by simp
  next
    case False
    with s1 sw i have "proj_forward (InternalDimProjection xavier (embedding_dim emb) (model_dim d) kw) a0 = Some a1"
      by auto
    from proj_forward_shape [OF this] h0 have h1: "shape a1 = shape seq @ [model_dim d]"
      by (simp add: InternalDimProjection_def)
    from False s3 sw i have "proj_forward (InternalDimProjection xavier (model_dim d) (embedding_dim emb) kw) a2 = Some y"
      by auto
    from proj_forward_shape [OF this] h1 h2 have "shape y = shape seq @ [embedding_dim emb]"
      by (simp add: InternalDimProjection_def)
    with False show ?thesis by simp
  qed
qed


theorem forward_output_width_is_embedding_dim_witness:
  "ex_init 3 True = Inr (projr (ex_init 3 True)) \<and> ex_run 3 False None \<noteq> None \<and>
   embeds_to_width ex_embed \<and> pos_preserves_shape (ex_pos 2) \<and> preserves_shape (ex_layer 3) \<and>
   embedding_dim ex_embed \<noteq> model_dim (projr (ex_init 3 True)) \<and>
   shape (fst (the (ex_run 3 False None))) = shape ex_seq @ [embedding_dim ex_embed] \<and>
   ex_init 2 True = Inr (projr (ex_init 2 True)) \<and> ex_run 2 True (Some 0) \<noteq> None \<and>
   embedding_dim ex_embed = model_dim (projr (ex_init 2 True)) \<and>
   shape (fst (the (ex_run 2 True (Some 0)))) = shape ex_seq @ [model_dim (projr (ex_init 2 True))]"
proof -
  obtain y s w' where r: "ex_run 3 False None = Some (y, s, w')"
    using ex_run_Some by blast
  obtain y2 s2 w2 where r2: "ex_run 2 True (Some 0) = Some (y2, s2, w2)"
    using ex_run_Some by blast
  have c: "\<forall>p. Some (ex_pos 2) = Some p \<longrightarrow> pos_preserves_shape (p :: nat positional_embedding)"
    "\<forall>l \<in> set (fst (iterate (Sequence [ex_layer n, ex_layer n]))). preserves_shape l" for n
    by (simp_all add: ex_contracts)
  have m: "embedding_dim ex_embed \<noteq> model_dim (projr (ex_init 3 True))"
    "embedding_dim ex_embed = model_dim (projr (ex_init 2 True))"
    by (simp_all add: ex_init_eq ex_embed_def table_embedding_def)
  from forward_output_width_is_embedding_dim
    [OF ex_init_Inr r [unfolded ex_run_def ex_world_def ex_decoder_def] ex_contracts(1) c]
  have 1: "shape y = shape ex_seq @ [embedding_dim ex_embed]"
    by simp
  from forward_output_width_is_embedding_dim
    [OF ex_init_Inr r2 [unfolded ex_run_def ex_world_def ex_decoder_def] ex_contracts(1) c] m(2)
  have 2: "shape y2 = shape ex_seq @ [model_dim (projr (ex_init 2 True))]"
    by simp
  from 1 2 m ex_contracts show ?thesis
    by (simp add: r r2 ex_init_eq)
qed

text \<open>
  Claim C4. The docstring of \<^verbatim>\<open>forward\<close> (lines 73 to 76) gives the output the shape of the
  input sequence extended by the model size, and \<^verbatim>\<open>model_dim\<close> is documented as the width of
  inputs and outputs (lines 35 to 36 and 40 to 41). The code does not do so where the
  embedding width differs from the model width, since the output projection built at lines
  224 to 229 and applied last at lines 254 to 255 maps back to the embedding width: the
  decoder built from the embedding of width 2 and two layers of width 3 returns at inference,
  for the sequence \<open>[1, 0, 2]\<close> of shape [3], a tensor of shape [3, 2], whose trailing width
  is not the model width 3.
\<close>

theorem forward_output_width_is_not_model_dim:
  "ex_init 3 True = Inr (projr (ex_init 3 True)) \<and>
   self (ex_world 3 False) = (projr (ex_init 3 True))\<lparr>training := False\<rparr> \<and>
   model_dim (projr (ex_init 3 True)) = 3 \<and> embedding_dim ex_embed = 2 \<and>
   ex_run 3 False None \<noteq> None \<and>
   shape ex_seq = [3] \<and>
   shape (fst (the (ex_run 3 False None))) = [3, 2] \<and>
   shape (fst (the (ex_run 3 False None))) \<noteq> shape ex_seq @ [model_dim (projr (ex_init 3 True))]"
  by (simp add: ex_defs ex_init_eq tensor_mul_def)

end
